theory Spec2Isabelle
  imports Complex_Main "HOL-Library.Sublist"
begin

section \<open>Python values shared by the agents\<close>

text \<open>
  The agents exchange \<^verbatim>\<open>list[dict]\<close> whose keys and values are strings; such a dict
  is a partial map. \<^verbatim>\<open>d.get(k, default)\<close> is \<open>dict_get\<close>. A string is a list of
  characters, one element per Python character; \<^verbatim>\<open>s[:n]\<close> is \<open>take n s\<close> and
  \<^verbatim>\<open>not s\<close> is \<open>s = []\<close>.

  Exceptions are values. Only the classes that some handler of the source tells apart
  are kept apart: the two geopy classes named by the resolver's \<^verbatim>\<open>except\<close> clause
  (every other geopy service error is a subclass of \<^verbatim>\<open>GeocoderServiceError\<close>), the
  \<^verbatim>\<open>KeyError\<close> of a failed subscript, and any other subclass of \<^verbatim>\<open>Exception\<close>.
\<close>

type_synonym pydict = "string \<rightharpoonup> string"

definition dict_get :: "pydict \<Rightarrow> string \<Rightarrow> string \<Rightarrow> string" where
  "dict_get d k dflt = (case d k of Some v \<Rightarrow> v | None \<Rightarrow> dflt)"

datatype exn =
    GeocoderTimedOut string
  | GeocoderServiceError string
  | KeyError string
  | OtherException string

fun str_exn :: "exn \<Rightarrow> string" where
  "str_exn (GeocoderTimedOut m) = m"
| "str_exn (GeocoderServiceError m) = m"
| "str_exn (KeyError k) = [CHR 0x27] @ k @ [CHR 0x27]"
| "str_exn (OtherException m) = m"

section \<open>Agent 1: web search (web\_search.py)\<close>

text \<open>
  \<^verbatim>\<open>ddgs.text(q, region="in-en", max_results=n)\<close> is the parameter \<open>ddgs_text\<close>: it
  returns the raw result dicts of a query or raises. The \<^verbatim>\<open>try\<close> inside the loop over
  the queries catches every exception, so a failed query adds nothing. Opening the
  search session stands outside that handler and is taken to return.
\<close>

definition DEFAULT_QUERIES :: "string list" where
  "DEFAULT_QUERIES =
     [''software engineer jobs India hiring 2024'',
      ''developer jobs Bangalore hiring'',
      ''tech jobs Mumbai hiring now'',
      ''remote jobs India software'',
      ''startup jobs Delhi NCR'']"

definition search_hit :: "string \<Rightarrow> pydict \<Rightarrow> pydict" where
  "search_hit q result =
     [''title'' \<mapsto> dict_get result ''title'' [],
      ''url'' \<mapsto> dict_get result ''href'' [],
      ''snippet'' \<mapsto> dict_get result ''body'' [],
      ''source_query'' \<mapsto> q]"

fun search_queries :: "(string \<Rightarrow> int \<Rightarrow> exn + pydict list) \<Rightarrow> int \<Rightarrow> string list \<Rightarrow> pydict list" where
  "search_queries ddgs_text max_results [] = []"
| "search_queries ddgs_text max_results (q # qs) =
     (case ddgs_text q max_results of
        Inr search_results \<Rightarrow>
          map (search_hit q) search_results @ search_queries ddgs_text max_results qs
      | Inl e \<Rightarrow> search_queries ddgs_text max_results qs)"

text \<open>
  The de-duplication loop, with its two accumulators \<^verbatim>\<open>seen_urls\<close> and
  \<^verbatim>\<open>unique_results\<close>. \<^verbatim>\<open>r["url"]\<close> is a subscript: a missing key raises.
\<close>

fun remove_duplicates :: "pydict list \<Rightarrow> string set \<Rightarrow> pydict list \<Rightarrow> exn + pydict list" where
  "remove_duplicates [] seen_urls unique_results = Inr unique_results"
| "remove_duplicates (r # rs) seen_urls unique_results =
     (case r ''url'' of
        None \<Rightarrow> Inl (KeyError ''url'')
      | Some u \<Rightarrow>
          if u \<notin> seen_urls
          then remove_duplicates rs (insert u seen_urls) (unique_results @ [r])
          else remove_duplicates rs seen_urls unique_results)"

definition search_results_of :: "(string \<Rightarrow> int \<Rightarrow> exn + pydict list) \<Rightarrow> string option \<Rightarrow> int \<Rightarrow> pydict list" where
  "search_results_of ddgs_text query max_results =
     search_queries ddgs_text max_results
       (case query of
          Some q \<Rightarrow> if q \<noteq> [] then [q] else take 2 DEFAULT_QUERIES
        | None \<Rightarrow> take 2 DEFAULT_QUERIES)"

definition WebSearchAgent_run :: "(string \<Rightarrow> int \<Rightarrow> exn + pydict list) \<Rightarrow> string option \<Rightarrow> int \<Rightarrow> exn + pydict list" where
  "WebSearchAgent_run ddgs_text query max_results =
     remove_duplicates (search_results_of ddgs_text query max_results) {} []"

section \<open>Agent 2: scraper (scraper.py)\<close>

text \<open>
  Everything \<^verbatim>\<open>_scrape_url\<close> does before the slice is library code: the GET, the status
  check, the parse, the removal of script, style, nav, footer and header elements and
  \<^verbatim>\<open>get_text\<close>. It is the parameter \<open>page_text\<close>, which yields the stripped text of
  a url or raises; the handler catches every exception. The parameter of the agent is
  indexed by the position of the hit, so two requests for one url may differ.
\<close>

definition ScraperAgent_scrape_url :: "(string \<Rightarrow> exn + string) \<Rightarrow> string \<Rightarrow> string option" where
  "ScraperAgent_scrape_url page_text url =
     (case page_text url of
        Inl e \<Rightarrow> None
      | Inr txt \<Rightarrow> if txt \<noteq> [] then Some (take 5000 txt) else None)"

fun scrape_loop :: "(nat \<Rightarrow> string \<Rightarrow> exn + string) \<Rightarrow> nat \<Rightarrow> pydict list \<Rightarrow> pydict list" where
  "scrape_loop page_text i [] = []"
| "scrape_loop page_text i (item # items) =
     (let url = dict_get item ''url'' [] in
      if url = [] then scrape_loop page_text (Suc i) items
      else
        (case ScraperAgent_scrape_url (page_text i) url of
           None \<Rightarrow> scrape_loop page_text (Suc i) items
         | Some content \<Rightarrow>
             if content \<noteq> []
             then [''url'' \<mapsto> url,
                   ''title'' \<mapsto> dict_get item ''title'' [],
                   ''snippet'' \<mapsto> dict_get item ''snippet'' [],
                   ''content'' \<mapsto> content]
                  # scrape_loop page_text (Suc i) items
             else scrape_loop page_text (Suc i) items))"

definition ScraperAgent_run :: "(nat \<Rightarrow> string \<Rightarrow> exn + string) \<Rightarrow> pydict list \<Rightarrow> pydict list" where
  "ScraperAgent_run page_text urls = scrape_loop page_text 0 (take 10 urls)"

section \<open>Agent 3: extraction (extraction.py)\<close>

record ExtractedJob =
  job_title :: string
  company :: string
  location :: string
  apply_url :: "string option"
  description :: "string option"

text \<open>
  \<^verbatim>\<open>self.llm\<close> is \<open>None\<close> when no API key is configured. Otherwise the structured
  completion is a parameter: called for the page at position \<open>i\<close> with the first 3000
  characters of its content, it returns an \<open>ExtractedJob\<close> or raises.
\<close>

type_synonym structured_llm = "nat \<Rightarrow> string \<Rightarrow> exn + ExtractedJob"

definition with_page_url :: "pydict \<Rightarrow> ExtractedJob \<Rightarrow> ExtractedJob" where
  "with_page_url item result =
     (if apply_url result = None \<or> apply_url result = Some []
      then result\<lparr>apply_url := Some (dict_get item ''url'' [])\<rparr>
      else result)"

fun llm_extract_loop :: "structured_llm \<Rightarrow> nat \<Rightarrow> pydict list \<Rightarrow> ExtractedJob list" where
  "llm_extract_loop llm i [] = []"
| "llm_extract_loop llm i (item # items) =
     (let content = dict_get item ''content'' [] in
      if content = [] then llm_extract_loop llm (Suc i) items
      else
        (case llm i (take 3000 content) of
           Inl e \<Rightarrow> llm_extract_loop llm (Suc i) items
         | Inr result \<Rightarrow> with_page_url item result # llm_extract_loop llm (Suc i) items))"

definition mock_job :: "pydict \<Rightarrow> ExtractedJob" where
  "mock_job item =
     \<lparr>job_title = dict_get item ''title'' ''Software Engineer'',
      company = ''Unknown Company'',
      location = ''India'',
      apply_url = Some (dict_get item ''url'' []),
      description = Some (take 200 (dict_get item ''snippet'' []))\<rparr>"

definition ExtractionAgent_mock_extract :: "pydict list \<Rightarrow> ExtractedJob list" where
  "ExtractionAgent_mock_extract scraped_content = map mock_job scraped_content"

definition ExtractionAgent_run :: "structured_llm option \<Rightarrow> pydict list \<Rightarrow> ExtractedJob list" where
  "ExtractionAgent_run llm scraped_content =
     (case llm of
        None \<Rightarrow> ExtractionAgent_mock_extract scraped_content
      | Some structured \<Rightarrow> llm_extract_loop structured 0 scraped_content)"

section \<open>Agent 4: geocoding (geocoding.py)\<close>

text \<open>
  Coordinates are only stored, compared for identity and passed on, never computed
  with, so a Python float literal is the real number it denotes.
\<close>

type_synonym coords = "real \<times> real"

record GeocodedJob = ExtractedJob +
  lat :: real
  lng :: real

definition CITY_CACHE :: "(string \<times> coords) list" where
  "CITY_CACHE =
     [(''bangalore'', (12.9716, 77.5946)),
      (''bengaluru'', (12.9716, 77.5946)),
      (''mumbai'', (19.0760, 72.8777)),
      (''delhi'', (28.6139, 77.2090)),
      (''new delhi'', (28.6139, 77.2090)),
      (''hyderabad'', (17.3850, 78.4867)),
      (''chennai'', (13.0827, 80.2707)),
      (''pune'', (18.5204, 73.8567)),
      (''kolkata'', (22.5726, 88.3639)),
      (''gurgaon'', (28.4595, 77.0266)),
      (''gurugram'', (28.4595, 77.0266)),
      (''noida'', (28.5355, 77.3910)),
      (''ahmedabad'', (23.0225, 72.5714)),
      (''jaipur'', (26.9124, 75.7873)),
      (''remote'', (20.5937, 78.9629)),
      (''india'', (20.5937, 78.9629))]"

text \<open>
  \<^verbatim>\<open>str.lower\<close> and \<^verbatim>\<open>str.strip\<close> on ASCII text: the 26 capital letters are
  mapped to small ones and every other character is kept; the characters stripped from
  both ends are the ASCII ones for which \<^verbatim>\<open>str.isspace\<close> holds.
\<close>

definition lower_char :: "char \<Rightarrow> char" where
  "lower_char c =
     (case map_of (zip ''ABCDEFGHIJKLMNOPQRSTUVWXYZ'' ''abcdefghijklmnopqrstuvwxyz'') c of
        Some l \<Rightarrow> l
      | None \<Rightarrow> c)"

definition lower :: "string \<Rightarrow> string" where
  "lower s = map lower_char s"

definition isspace :: "char \<Rightarrow> bool" where
  "isspace c =
     (c \<in> set [CHR 0x09, CHR 0x0A, CHR 0x0B, CHR 0x0C, CHR 0x0D,
                CHR 0x1C, CHR 0x1D, CHR 0x1E, CHR 0x1F, CHR 0x20])"

definition strip :: "string \<Rightarrow> string" where
  "strip s = rev (dropWhile isspace (rev (dropWhile isspace s)))"

text \<open>\<^verbatim>\<open>key in s\<close> on strings: \<open>key\<close> occurs in \<open>s\<close> as a contiguous block.\<close>

fun str_in :: "string \<Rightarrow> string \<Rightarrow> bool" where
  "str_in k [] = (k = [])"
| "str_in k (c # cs) = (prefix k (c # cs) \<or> str_in k cs)"

text \<open>The scan of \<^verbatim>\<open>CITY_CACHE.items()\<close>, in insertion order; the first hit returns.\<close>

fun cache_scan :: "(string \<times> coords) list \<Rightarrow> string \<Rightarrow> coords option" where
  "cache_scan [] location_lower = None"
| "cache_scan ((k, c) # items) location_lower =
     (if str_in k location_lower then Some c else cache_scan items location_lower)"

text \<open>
  \<^verbatim>\<open>self.geolocator.geocode(query, timeout=10)\<close> is a parameter: it returns
  coordinates, returns \<open>None\<close>, or raises. The effects of one resolution are recorded
  beside its result: the one-second sleep and the network lookup with its query.
  The handler names \<^verbatim>\<open>GeocoderTimedOut\<close> and \<^verbatim>\<open>GeocoderServiceError\<close> only; an
  exception of another class leaves \<^verbatim>\<open>_geocode_location\<close>.
\<close>

datatype effect = Sleep nat | Lookup string nat

definition geocoder_caught :: "exn \<Rightarrow> bool" where
  "geocoder_caught e =
     (case e of
        GeocoderTimedOut m \<Rightarrow> True
      | GeocoderServiceError m \<Rightarrow> True
      | KeyError k \<Rightarrow> False
      | OtherException m \<Rightarrow> False)"

definition GeocodingAgent_geocode_location ::
    "(string \<Rightarrow> exn + coords option) \<Rightarrow> string \<Rightarrow> (exn + coords) \<times> effect list" where
  "GeocodingAgent_geocode_location geocode loc =
     (if loc = [] then (Inr (20.5937, 78.9629), [])
      else
        (case cache_scan CITY_CACHE (strip (lower loc)) of
           Some c \<Rightarrow> (Inr c, [])
         | None \<Rightarrow>
             (let q = loc @ '', India''; effects = [Sleep 1, Lookup q 10] in
              case geocode q of
                Inr (Some result) \<Rightarrow> (Inr result, effects)
              | Inr None \<Rightarrow> (Inr (20.5937, 78.9629), effects)
              | Inl e \<Rightarrow>
                  if geocoder_caught e then (Inr (20.5937, 78.9629), effects)
                  else (Inl e, effects))))"

definition geocoded :: "ExtractedJob \<Rightarrow> coords \<Rightarrow> GeocodedJob" where
  "geocoded job c =
     \<lparr>job_title = job_title job,
      company = company job,
      location = location job,
      apply_url = apply_url job,
      description = description job,
      lat = fst c,
      lng = snd c\<rparr>"

text \<open>
  The batch loop. The lookup of the job at position \<open>i\<close> is \<open>geocode i\<close>. An exception
  that leaves \<^verbatim>\<open>_geocode_location\<close> leaves \<^verbatim>\<open>run\<close> too: the loop has no handler.
\<close>

fun geocode_loop :: "(nat \<Rightarrow> string \<Rightarrow> exn + coords option) \<Rightarrow> nat \<Rightarrow> ExtractedJob list \<Rightarrow> exn + GeocodedJob list" where
  "geocode_loop geocode i [] = Inr []"
| "geocode_loop geocode i (job # jobs) =
     (case fst (GeocodingAgent_geocode_location (geocode i) (location job)) of
        Inl e \<Rightarrow> Inl e
      | Inr c \<Rightarrow>
          (case geocode_loop geocode (Suc i) jobs of
             Inl e \<Rightarrow> Inl e
           | Inr rest \<Rightarrow> Inr (geocoded job c # rest)))"

definition GeocodingAgent_run :: "(nat \<Rightarrow> string \<Rightarrow> exn + coords option) \<Rightarrow> ExtractedJob list \<Rightarrow> exn + GeocodedJob list" where
  "GeocodingAgent_run geocode extracted_jobs = geocode_loop geocode 0 extracted_jobs"

section \<open>Agent 5: indexing (indexing.py)\<close>

text \<open>
  The collaborators of the indexer are parameters. \<open>uuid4 i\<close> is the identifier drawn
  for the job at position \<open>i\<close> and \<open>utcnow\<close> the clock, read twice per job. The
  embedding client and the vector index are optional attributes, absent when they are
  not configured; each call returns or raises. \<open>db_add\<close> and \<open>db_commit\<close> are the
  two session calls inside the outer \<^verbatim>\<open>try\<close>; \<open>Some e\<close> is the exception they raise.
  Creating the session, \<^verbatim>\<open>rollback\<close> and \<^verbatim>\<open>close\<close> stand outside every handler of
  the source and are taken to return.
\<close>

record JobPostingDB =
  row_id :: string
  row_job_title :: string
  row_company :: string
  row_location :: string
  row_apply_url :: string
  row_lat :: real
  row_lng :: real
  row_text :: "string option"
  row_source :: "string option"
  row_scraped_at :: nat
  row_embedding_id :: "string option"

record indexed_job =
  idx_id :: string
  idx_job_title :: string
  idx_company :: string
  idx_location :: string
  idx_lat :: real
  idx_lng :: real
  idx_indexed_at :: nat

record vector =
  vec_id :: string
  vec_values :: "real list"
  vec_metadata :: pydict

datatype db_op = Add JobPostingDB | Commit | Rollback | Close

record indexing_env =
  uuid4 :: "nat \<Rightarrow> string"
  utcnow :: "nat \<Rightarrow> nat"
  embeddings :: "(nat \<Rightarrow> string \<Rightarrow> exn + real list) option"
  pinecone_index :: "(nat \<Rightarrow> vector \<Rightarrow> exn option) option"
  db_add :: "nat \<Rightarrow> JobPostingDB \<Rightarrow> exn option"
  db_commit :: "JobPostingDB list \<Rightarrow> exn option"

definition or_empty :: "string option \<Rightarrow> string" where
  "or_empty s = (case s of Some v \<Rightarrow> v | None \<Rightarrow> [])"

text \<open>
  The inner \<^verbatim>\<open>try\<close>: the embedding of one job and its upsert. Any exception is
  caught and leaves \<^verbatim>\<open>embedding_id\<close> at \<open>None\<close>.
\<close>

definition text_to_embed :: "GeocodedJob \<Rightarrow> string" where
  "text_to_embed job =
     job_title job @ '' at '' @ company job @ ''. '' @ or_empty (description job)"

definition pinecone_vector :: "string \<Rightarrow> real list \<Rightarrow> GeocodedJob \<Rightarrow> vector" where
  "pinecone_vector job_id embedding job =
     \<lparr>vec_id = job_id, vec_values = embedding,
      vec_metadata =
        [''job_title'' \<mapsto> job_title job,
         ''company'' \<mapsto> company job,
         ''location'' \<mapsto> location job,
         ''apply_url'' \<mapsto> or_empty (apply_url job)]\<rparr>"

definition embed_job :: "indexing_env \<Rightarrow> nat \<Rightarrow> string \<Rightarrow> GeocodedJob \<Rightarrow> string option" where
  "embed_job env i job_id job =
     (case (pinecone_index env, embeddings env) of
        (Some upsert, Some aembed_query) \<Rightarrow>
          (case aembed_query i (text_to_embed job) of
             Inl e \<Rightarrow> None
           | Inr embedding \<Rightarrow>
               (case upsert i (pinecone_vector job_id embedding job) of
                  Some e \<Rightarrow> None
                | None \<Rightarrow> Some job_id))
      | _ \<Rightarrow> None)"

definition db_row :: "indexing_env \<Rightarrow> nat \<Rightarrow> GeocodedJob \<Rightarrow> JobPostingDB" where
  "db_row env i job =
     \<lparr>row_id = uuid4 env i,
      row_job_title = job_title job,
      row_company = company job,
      row_location = location job,
      row_apply_url = or_empty (apply_url job),
      row_lat = lat job,
      row_lng = lng job,
      row_text = description job,
      row_source = Some ''pipeline'',
      row_scraped_at = utcnow env (2 * i),
      row_embedding_id = embed_job env i (uuid4 env i) job\<rparr>"

definition indexed_record :: "indexing_env \<Rightarrow> nat \<Rightarrow> GeocodedJob \<Rightarrow> indexed_job" where
  "indexed_record env i job =
     \<lparr>idx_id = uuid4 env i,
      idx_job_title = job_title job,
      idx_company = company job,
      idx_location = location job,
      idx_lat = lat job,
      idx_lng = lng job,
      idx_indexed_at = utcnow env (2 * i + 1)\<rparr>"

text \<open>
  The per-job loop with its state: the rows added to the session, the in-memory list
  \<^verbatim>\<open>indexed\<close> and the session calls attempted so far. The first component of the
  result is the exception that ended the loop, if one did.
\<close>

fun index_loop ::
    "indexing_env \<Rightarrow> nat \<Rightarrow> GeocodedJob list \<Rightarrow> JobPostingDB list \<Rightarrow> indexed_job list \<Rightarrow> db_op list
     \<Rightarrow> exn option \<times> JobPostingDB list \<times> indexed_job list \<times> db_op list" where
  "index_loop env i [] pending indexed ops = (None, pending, indexed, ops)"
| "index_loop env i (job # jobs) pending indexed ops =
     (let db_job = db_row env i job in
      case db_add env i db_job of
        Some e \<Rightarrow> (Some e, pending, indexed, ops @ [Add db_job])
      | None \<Rightarrow>
          index_loop env (Suc i) jobs (pending @ [db_job])
            (indexed @ [indexed_record env i job]) (ops @ [Add db_job]))"

text \<open>
  What one call leaves behind: the list it returns, the rows that are durably
  committed, and the session calls it attempted, in order.
\<close>

record index_outcome =
  returned :: "indexed_job list"
  committed :: "JobPostingDB list"
  db_ops :: "db_op list"

definition IndexingAgent_run :: "indexing_env \<Rightarrow> GeocodedJob list \<Rightarrow> index_outcome" where
  "IndexingAgent_run env geocoded_jobs =
     (case index_loop env 0 geocoded_jobs [] [] [] of
        (Some e, pending, indexed, ops) \<Rightarrow>
          \<lparr>returned = indexed, committed = [], db_ops = ops @ [Rollback, Close]\<rparr>
      | (None, pending, indexed, ops) \<Rightarrow>
          (case db_commit env pending of
             Some e \<Rightarrow>
               \<lparr>returned = indexed, committed = [], db_ops = ops @ [Commit, Rollback, Close]\<rparr>
           | None \<Rightarrow>
               \<lparr>returned = indexed, committed = pending, db_ops = ops @ [Commit, Close]\<rparr>))"

section \<open>The orchestrator (pipeline.py)\<close>

text \<open>
  The pipeline object holds five agents and calls the \<^verbatim>\<open>run\<close> of each inside a
  \<^verbatim>\<open>try\<close> that catches every exception, so a stage is a function that returns its
  output or an exception. The compiled graph has the single path
  search, scrape, extract, geocode, index; invoking it applies the nodes in that order.
\<close>

record PipelineState =
  query :: string
  search_results :: "pydict list"
  scraped_content :: "pydict list"
  extracted_jobs :: "ExtractedJob list"
  geocoded_jobs :: "GeocodedJob list"
  indexed_jobs :: "indexed_job list"
  error :: string

record agents =
  web_search :: "string option \<Rightarrow> int \<Rightarrow> exn + pydict list"
  scraper :: "pydict list \<Rightarrow> exn + pydict list"
  extraction :: "pydict list \<Rightarrow> exn + ExtractedJob list"
  geocoding :: "ExtractedJob list \<Rightarrow> exn + GeocodedJob list"
  indexing :: "GeocodedJob list \<Rightarrow> exn + indexed_job list"

definition search_node :: "agents \<Rightarrow> PipelineState \<Rightarrow> PipelineState" where
  "search_node self state =
     (case web_search self (Some (query state)) 10 of
        Inr results \<Rightarrow> state\<lparr>search_results := results\<rparr>
      | Inl e \<Rightarrow> state\<lparr>error := ''Search error: '' @ str_exn e, search_results := []\<rparr>)"

definition scrape_node :: "agents \<Rightarrow> PipelineState \<Rightarrow> PipelineState" where
  "scrape_node self state =
     (case scraper self (search_results state) of
        Inr results \<Rightarrow> state\<lparr>scraped_content := results\<rparr>
      | Inl e \<Rightarrow> state\<lparr>error := ''Scrape error: '' @ str_exn e, scraped_content := []\<rparr>)"

definition extract_node :: "agents \<Rightarrow> PipelineState \<Rightarrow> PipelineState" where
  "extract_node self state =
     (case extraction self (scraped_content state) of
        Inr results \<Rightarrow> state\<lparr>extracted_jobs := results\<rparr>
      | Inl e \<Rightarrow> state\<lparr>error := ''Extraction error: '' @ str_exn e, extracted_jobs := []\<rparr>)"

definition geocode_node :: "agents \<Rightarrow> PipelineState \<Rightarrow> PipelineState" where
  "geocode_node self state =
     (case geocoding self (extracted_jobs state) of
        Inr results \<Rightarrow> state\<lparr>geocoded_jobs := results\<rparr>
      | Inl e \<Rightarrow> state\<lparr>error := ''Geocoding error: '' @ str_exn e, geocoded_jobs := []\<rparr>)"

definition index_node :: "agents \<Rightarrow> PipelineState \<Rightarrow> PipelineState" where
  "index_node self state =
     (case indexing self (geocoded_jobs state) of
        Inr results \<Rightarrow> state\<lparr>indexed_jobs := results\<rparr>
      | Inl e \<Rightarrow> state\<lparr>error := ''Indexing error: '' @ str_exn e, indexed_jobs := []\<rparr>)"

definition initial_state :: "string option \<Rightarrow> PipelineState" where
  "initial_state q =
     \<lparr>query = or_empty q,
      search_results = [],
      scraped_content = [],
      extracted_jobs = [],
      geocoded_jobs = [],
      indexed_jobs = [],
      error = []\<rparr>"

definition JobDiscoveryPipeline_run :: "agents \<Rightarrow> string option \<Rightarrow> PipelineState" where
  "JobDiscoveryPipeline_run self q =
     index_node self (geocode_node self (extract_node self (scrape_node self
       (search_node self (initial_state q)))))"

text \<open>
  The pipeline as \<^verbatim>\<open>__init__\<close> builds it: the five agents of this repository, over
  the collaborators of one run.
\<close>

record collaborators =
  ddgs :: "string \<Rightarrow> int \<Rightarrow> exn + pydict list"
  http :: "nat \<Rightarrow> string \<Rightarrow> exn + string"
  openai :: "structured_llm option"
  nominatim :: "nat \<Rightarrow> string \<Rightarrow> exn + coords option"
  stores :: indexing_env

definition JobDiscoveryPipeline :: "collaborators \<Rightarrow> agents" where
  "JobDiscoveryPipeline c =
     \<lparr>web_search = WebSearchAgent_run (ddgs c),
      scraper = (\<lambda>urls. Inr (ScraperAgent_run (http c) urls)),
      extraction = (\<lambda>pages. Inr (ExtractionAgent_run (openai c) pages)),
      geocoding = GeocodingAgent_run (nominatim c),
      indexing = (\<lambda>jobs. Inr (returned (IndexingAgent_run (stores c) jobs)))\<rparr>"

section \<open>Observations and example inputs\<close>

text \<open>The url of a hit or page, as \<^verbatim>\<open>item.get("url", "")\<close> reads it.\<close>

definition url_of :: "pydict \<Rightarrow> string" where
  "url_of r = dict_get r ''url'' []"

text \<open>
  A search collaborator for the first two default queries: the first finds a.com, the
  second finds a.com again and b.com; every other query fails.
\<close>

definition example_ddgs :: "string \<Rightarrow> int \<Rightarrow> exn + pydict list" where
  "example_ddgs q n =
     (if q = ''software engineer jobs India hiring 2024''
      then Inr [[''title'' \<mapsto> ''A'', ''href'' \<mapsto> ''a.com'']]
      else if q = ''developer jobs Bangalore hiring''
      then Inr [[''title'' \<mapsto> ''A again'', ''href'' \<mapsto> ''a.com''], [''href'' \<mapsto> ''b.com'']]
      else Inl (OtherException ''rate limit''))"


text \<open>
  Four search hits for the scraper: one whose page is fetched, one without a url, one
  whose request fails and one whose page has no text.
\<close>

definition example_hits :: "pydict list" where
  "example_hits =
     [[''url'' \<mapsto> ''https://jobs.example/1'', ''title'' \<mapsto> ''Backend Developer'', ''snippet'' \<mapsto> ''Hiring now''],
      [''title'' \<mapsto> ''No link''],
      [''url'' \<mapsto> ''https://jobs.example/down''],
      [''url'' \<mapsto> ''https://jobs.example/blank'']]"

definition example_page_text :: "nat \<Rightarrow> string \<Rightarrow> exn + string" where
  "example_page_text i url =
     (if url = ''https://jobs.example/1'' then Inr ''Backend Developer at Acme, Pune''
      else if url = ''https://jobs.example/blank'' then Inr []
      else Inl (OtherException ''timeout''))"



definition page_empty_title :: pydict where
  "page_empty_title =
     [''url'' \<mapsto> ''https://jobs.example/4'', ''title'' \<mapsto> [],
      ''snippet'' \<mapsto> ''Apply today'', ''content'' \<mapsto> ''We are hiring'']"

definition page_complete :: pydict where
  "page_complete =
     [''url'' \<mapsto> ''https://jobs.example/1'', ''title'' \<mapsto> ''Backend Developer'',
      ''snippet'' \<mapsto> ''Hiring now'', ''content'' \<mapsto> ''Backend Developer at Acme, Pune'']"

definition blank_llm :: structured_llm where
  "blank_llm i content =
     Inr \<lparr>job_title = [], company = [], location = ''Remote'',
          apply_url = None, description = None\<rparr>"

definition full_llm :: structured_llm where
  "full_llm i content =
     Inr \<lparr>job_title = ''Backend Developer'', company = ''Acme'', location = ''Pune'',
          apply_url = Some ''https://acme.example/apply'', description = None\<rparr>"

text \<open>
  Lookups for the resolver: one that raises an exception of a class the handler does
  not name, one that times out and one that finds nothing; and two extracted jobs, one
  in a cached city and one elsewhere.
\<close>

definition broken_geocoder :: "string \<Rightarrow> exn + coords option" where
  "broken_geocoder q = Inl (OtherException ''malformed response'')"

definition timed_out_geocoder :: "string \<Rightarrow> exn + coords option" where
  "timed_out_geocoder q = Inl (GeocoderTimedOut ''Service timed out'')"

definition empty_geocoder :: "string \<Rightarrow> exn + coords option" where
  "empty_geocoder q = Inr None"

definition job_bangalore :: ExtractedJob where
  "job_bangalore =
     \<lparr>job_title = ''Developer'', company = ''Test Corp'',
      location = ''Koramangala, Bangalore'',
      apply_url = Some ''https://example.com'', description = None\<rparr>"

definition job_timbuktu :: ExtractedJob where
  "job_timbuktu =
     \<lparr>job_title = ''Engineer'', company = ''Sahara Inc'', location = ''Timbuktu'',
      apply_url = None, description = Some ''On site''\<rparr>"

text \<open>
  The row and the in-memory record that the indexing loop builds for each position of
  a batch.
\<close>

definition batch_rows :: "indexing_env \<Rightarrow> GeocodedJob list \<Rightarrow> JobPostingDB list" where
  "batch_rows env jobs = map (\<lambda>(k, job). db_row env k job) (enumerate 0 jobs)"

definition batch_records :: "indexing_env \<Rightarrow> GeocodedJob list \<Rightarrow> indexed_job list" where
  "batch_records env jobs = map (\<lambda>(k, job). indexed_record env k job) (enumerate 0 jobs)"

text \<open>
  Stores for the indexer. In \<open>example_stores\<close> the vector index is configured, the
  embedding call fails for the second job only and the database accepts everything.
  The two variants differ in the database alone: in one the second add raises, in the
  other the commit does.
\<close>

definition example_stores :: indexing_env where
  "example_stores =
     \<lparr>uuid4 = (\<lambda>i. if i = 0 then ''id-a'' else if i = 1 then ''id-b'' else ''id-c''),
      utcnow = (\<lambda>t. 1000 + t),
      embeddings =
        Some (\<lambda>i t. if i = 1 then Inl (OtherException ''rate limited'') else Inr [0.25, 0.5]),
      pinecone_index = Some (\<lambda>i v. None),
      db_add = (\<lambda>i row. None),
      db_commit = (\<lambda>rows. None)\<rparr>"

definition stores_add_fails :: indexing_env where
  "stores_add_fails =
     example_stores
       \<lparr>db_add := (\<lambda>i row. if i = 1 then Some (OtherException ''session is closed'') else None)\<rparr>"

definition stores_commit_fails :: indexing_env where
  "stores_commit_fails =
     example_stores\<lparr>db_commit := (\<lambda>rows. Some (OtherException ''database is locked''))\<rparr>"

definition three_jobs :: "GeocodedJob list" where
  "three_jobs =
     [\<lparr>job_title = ''Developer'', company = ''Test Corp'', location = ''Bangalore'',
       apply_url = Some ''https://example.com/1'', description = None,
       lat = 12.9716, lng = 77.5946\<rparr>,
      \<lparr>job_title = ''Engineer'', company = ''Remote Inc'', location = ''Remote'',
       apply_url = None, description = Some ''Work from anywhere'',
       lat = 20.5937, lng = 78.9629\<rparr>,
      \<lparr>job_title = ''Analyst'', company = ''Data Ltd'', location = ''Pune'',
       apply_url = Some ''https://example.com/3'', description = None,
       lat = 18.5204, lng = 73.8567\<rparr>]"

text \<open>
  Collaborators for a whole run with the default queries: the searches of
  \<open>example_ddgs\<close>, a fetch that succeeds for a.com only, no language-model credential,
  a lookup that times out, and the stores of \<open>example_stores\<close>.
\<close>

definition example_http :: "nat \<Rightarrow> string \<Rightarrow> exn + string" where
  "example_http i url =
     (if url = ''a.com'' then Inr ''Backend Developer at Acme, Pune''
      else Inl (OtherException ''404 Client Error''))"

definition example_collaborators :: collaborators where
  "example_collaborators =
     \<lparr>ddgs = example_ddgs,
      http = example_http,
      openai = None,
      nominatim = (\<lambda>i. timed_out_geocoder),
      stores = example_stores\<rparr>"

section \<open>Query Source: de-duplication by url\<close>

lemma search_queries_have_url:
  "r \<in> set (search_queries ddgs_text max_results qs) \<Longrightarrow> r ''url'' = Some (url_of r)"
proof (induction qs)
  case Nil
  then show ?case by simp
next
  case (Cons q qs)
  show ?case
  proof (cases "ddgs_text q max_results")
    case (Inl e)
    with Cons show ?thesis by simp
  next
    case (Inr found)
    with Cons show ?thesis
      by (auto simp: search_hit_def url_of_def dict_get_def)
  qed
qed

lemma remove_duplicates_spec:
  assumes "\<forall>r\<in>set rs. r ''url'' = Some (url_of r)"
  shows "\<exists>out. remove_duplicates rs seen acc = Inr (acc @ out)
           \<and> distinct (map url_of out)
           \<and> set (map url_of out) = url_of ` set rs - seen
           \<and> subseq out rs
           \<and> (\<forall>r\<in>set out. find (\<lambda>x. url_of x = url_of r) rs = Some r)"
  using assms
proof (induction rs arbitrary: seen acc)
  case Nil
  then show ?case by simp
next
  case (Cons r rs)
  have key: "r ''url'' = Some (url_of r)" using Cons.prems by simp
  have rest: "\<forall>x\<in>set rs. x ''url'' = Some (url_of x)" using Cons.prems by simp
  show ?case
  proof (cases "url_of r \<in> seen")
    case True
    from Cons.IH [OF rest, of seen acc] obtain out where
      run: "remove_duplicates rs seen acc = Inr (acc @ out)" and
      d: "distinct (map url_of out)" and
      s: "set (map url_of out) = url_of ` set rs - seen" and
      q: "subseq out rs" and
      f: "\<forall>x\<in>set out. find (\<lambda>y. url_of y = url_of x) rs = Some x"
      by blast
    have "remove_duplicates (r # rs) seen acc = Inr (acc @ out)"
      using key True run by simp
    moreover have "set (map url_of out) = url_of ` set (r # rs) - seen"
      using s True by auto
    moreover have "subseq out (r # rs)"
      using q by (rule list_emb_Cons)
    moreover have "\<forall>x\<in>set out. find (\<lambda>y. url_of y = url_of x) (r # rs) = Some x"
    proof
      fix x assume x: "x \<in> set out"
      then have "url_of x \<in> set (map url_of out)" by simp
      then have "url_of x \<notin> seen" using s by blast
      then have "url_of r \<noteq> url_of x" using True by auto
      then show "find (\<lambda>y. url_of y = url_of x) (r # rs) = Some x"
        using f x by simp
    qed
    ultimately show ?thesis using d by blast
  next
    case False
    from Cons.IH [OF rest, of "insert (url_of r) seen" "acc @ [r]"] obtain out where
      run: "remove_duplicates rs (insert (url_of r) seen) (acc @ [r]) = Inr ((acc @ [r]) @ out)" and
      d: "distinct (map url_of out)" and
      s: "set (map url_of out) = url_of ` set rs - insert (url_of r) seen" and
      q: "subseq out rs" and
      f: "\<forall>x\<in>set out. find (\<lambda>y. url_of y = url_of x) rs = Some x"
      by blast
    have "remove_duplicates (r # rs) seen acc = Inr (acc @ (r # out))"
      using key False run by simp
    moreover have "distinct (map url_of (r # out))"
      using d s by auto
    moreover have "set (map url_of (r # out)) = url_of ` set (r # rs) - seen"
      using s False by auto
    moreover have "subseq (r # out) (r # rs)"
      using q by simp
    moreover have "\<forall>x\<in>set (r # out). find (\<lambda>y. url_of y = url_of x) (r # rs) = Some x"
    proof
      fix x assume x: "x \<in> set (r # out)"
      show "find (\<lambda>y. url_of y = url_of x) (r # rs) = Some x"
      proof (cases "x = r")
        case True
        then show ?thesis by simp
      next
        case neq: False
        then have xo: "x \<in> set out" using x by simp
        then have "url_of x \<in> set (map url_of out)" by simp
        then have "url_of r \<noteq> url_of x" using s by auto
        then show ?thesis using f xo by simp
      qed
    qed
    ultimately show ?thesis by blast
  qed
qed

text \<open>
  Claim C9. Whatever the searches return, the Query Source returns a list and does not
  raise; the urls of the list are pairwise distinct and are exactly the urls of the
  accumulated hits; the list is a subsequence of the accumulated hits, so the order in
  which the urls were first seen is kept; and every hit of the list is the first
  accumulated hit that has its url.
\<close>

theorem web_search_each_url_once:
  "\<exists>out. WebSearchAgent_run ddgs_text q max_results = Inr out
     \<and> distinct (map url_of out)
     \<and> set (map url_of out) = set (map url_of (search_results_of ddgs_text q max_results))
     \<and> subseq out (search_results_of ddgs_text q max_results)
     \<and> (\<forall>r\<in>set out.
          find (\<lambda>x. url_of x = url_of r) (search_results_of ddgs_text q max_results) = Some r)"
proof -
  let ?rs = "search_results_of ddgs_text q max_results"
  have "\<forall>r\<in>set ?rs. r ''url'' = Some (url_of r)"
    unfolding search_results_of_def by (blast intro: search_queries_have_url)
  from remove_duplicates_spec [OF this, of "{}" "[]"] show ?thesis
    unfolding WebSearchAgent_run_def by auto
qed

text \<open>
  The example of the claim: the first query finds a.com, the second finds a.com and
  b.com; the output is a.com from the first query, then b.com.
\<close>

lemma example_accumulated:
  "search_results_of example_ddgs None 10 =
     [search_hit ''software engineer jobs India hiring 2024'' [''title'' \<mapsto> ''A'', ''href'' \<mapsto> ''a.com''],
      search_hit ''developer jobs Bangalore hiring'' [''title'' \<mapsto> ''A again'', ''href'' \<mapsto> ''a.com''],
      search_hit ''developer jobs Bangalore hiring'' [''href'' \<mapsto> ''b.com'']]"
  by (simp add: search_results_of_def DEFAULT_QUERIES_def example_ddgs_def)

theorem web_search_each_url_once_witness:
  "\<exists>out. WebSearchAgent_run example_ddgs None 10 = Inr out
     \<and> map url_of (search_results_of example_ddgs None 10) = [''a.com'', ''a.com'', ''b.com'']
     \<and> map url_of out = [''a.com'', ''b.com'']
     \<and> map (\<lambda>r. r ''source_query'') out =
         [Some ''software engineer jobs India hiring 2024'', Some ''developer jobs Bangalore hiring'']
     \<and> distinct (map url_of out)"
  using web_search_each_url_once [of example_ddgs None 10]
  by (simp add: example_accumulated WebSearchAgent_run_def search_hit_def url_of_def dict_get_def)

section \<open>Content Fetcher: what a scraped page carries\<close>

lemma scrape_loop_contributions:
  "scrape_loop page_text i items =
     concat (map (\<lambda>(k, item).
        case page_text k (url_of item) of
          Inl e \<Rightarrow> []
        | Inr txt \<Rightarrow>
            if url_of item \<noteq> [] \<and> txt \<noteq> []
            then [[''url'' \<mapsto> url_of item,
                   ''title'' \<mapsto> dict_get item ''title'' [],
                   ''snippet'' \<mapsto> dict_get item ''snippet'' [],
                   ''content'' \<mapsto> take 5000 txt]]
            else []) (enumerate i items))"
proof (induction items arbitrary: i)
  case Nil
  then show ?case by simp
next
  case (Cons item items)
  show ?case
  proof (cases "page_text i (url_of item)")
    case (Inl e)
    then show ?thesis
      using Cons.IH [of "Suc i"]
      by (simp add: ScraperAgent_scrape_url_def url_of_def Let_def)
  next
    case (Inr body)
    then show ?thesis
      using Cons.IH [of "Suc i"]
      by (simp add: ScraperAgent_scrape_url_def url_of_def Let_def)
  qed
qed

lemma scrape_loop_content:
  "p \<in> set (scrape_loop page_text i items) \<Longrightarrow>
     \<exists>c. p ''content'' = Some c \<and> c \<noteq> [] \<and> length c \<le> 5000"
proof (induction items arbitrary: i)
  case Nil
  then show ?case by simp
next
  case (Cons item items)
  then show ?case
    by (auto simp: ScraperAgent_scrape_url_def Let_def split: if_splits sum.splits option.splits)
qed

lemma pipeline_scraped_content:
  "scraped_content (JobDiscoveryPipeline_run (JobDiscoveryPipeline collab) q) =
     ScraperAgent_run (http collab)
       (search_results (search_node (JobDiscoveryPipeline collab) (initial_state q)))"
  by (simp add: JobDiscoveryPipeline_run_def index_node_def geocode_node_def extract_node_def
      scrape_node_def JobDiscoveryPipeline_def split: sum.splits)

text \<open>
  Claim C10. Every page the Content Fetcher returns has a content entry that is a
  non-empty string of at most 5000 characters. The output is the concatenation, over
  the first ten hits in order, of what each hit contributes: nothing when its url is
  empty, when the fetch raises or when the stripped text is empty, and otherwise one
  page with the first 5000 characters of the text. Hence the pages that the pipeline
  hands to the later stages all carry non-empty content.
\<close>

theorem scraper_pages_carry_content:
  "(\<forall>p\<in>set (ScraperAgent_run page_text hits).
      \<exists>c. p ''content'' = Some c \<and> c \<noteq> [] \<and> length c \<le> 5000)
   \<and> ScraperAgent_run page_text hits =
       concat (map (\<lambda>(k, item).
          case page_text k (url_of item) of
            Inl e \<Rightarrow> []
          | Inr txt \<Rightarrow>
              if url_of item \<noteq> [] \<and> txt \<noteq> []
              then [[''url'' \<mapsto> url_of item,
                     ''title'' \<mapsto> dict_get item ''title'' [],
                     ''snippet'' \<mapsto> dict_get item ''snippet'' [],
                     ''content'' \<mapsto> take 5000 txt]]
              else []) (enumerate 0 (take 10 hits)))
   \<and> (\<forall>p\<in>set (scraped_content (JobDiscoveryPipeline_run (JobDiscoveryPipeline collab) q)).
        \<exists>c. p ''content'' = Some c \<and> c \<noteq> [] \<and> length c \<le> 5000)"
  unfolding pipeline_scraped_content ScraperAgent_run_def
  using scrape_loop_content scrape_loop_contributions by blast

text \<open>
  Of the four example hits only the first yields a page; its content is the fetched
  text.
\<close>

lemma example_scrape:
  "ScraperAgent_run example_page_text example_hits =
     [[''url'' \<mapsto> ''https://jobs.example/1'', ''title'' \<mapsto> ''Backend Developer'',
       ''snippet'' \<mapsto> ''Hiring now'', ''content'' \<mapsto> ''Backend Developer at Acme, Pune'']]"
  by (simp add: ScraperAgent_run_def example_hits_def example_page_text_def
      ScraperAgent_scrape_url_def dict_get_def Let_def)

theorem scraper_pages_carry_content_witness:
  "length (ScraperAgent_run example_page_text example_hits) = 1
   \<and> (\<exists>c. hd (ScraperAgent_run example_page_text example_hits) ''content'' = Some c
          \<and> c \<noteq> [] \<and> length c \<le> 5000)"
proof -
  have mem: "hd (ScraperAgent_run example_page_text example_hits)
          \<in> set (ScraperAgent_run example_page_text example_hits)"
    by (simp add: example_scrape)
  have "\<forall>p\<in>set (ScraperAgent_run example_page_text example_hits).
          \<exists>c. p ''content'' = Some c \<and> c \<noteq> [] \<and> length c \<le> 5000"
    using scraper_pages_carry_content [of example_page_text example_hits] by (rule conjunct1)
  then have "\<exists>c. hd (ScraperAgent_run example_page_text example_hits) ''content'' = Some c
          \<and> c \<noteq> [] \<and> length c \<le> 5000"
    using mem by (rule bspec)
  moreover have "length (ScraperAgent_run example_page_text example_hits) = 1"
    by (simp add: example_scrape)
  ultimately show ?thesis by (intro conjI)
qed

section \<open>Field Extractor\<close>

lemma llm_extract_loop_skips_empty_content:
  "dict_get item ''content'' [] = [] \<Longrightarrow>
     llm_extract_loop structured i (item # items) = llm_extract_loop structured (Suc i) items"
  by simp






lemma llm_extract_loop_origin:
  "j \<in> set (llm_extract_loop structured k items) \<Longrightarrow>
     \<exists>i result. i < length items
        \<and> structured (k + i) (take 3000 (dict_get (items ! i) ''content'' [])) = Inr result
        \<and> j = with_page_url (items ! i) result"
proof (induction items arbitrary: k)
  case Nil
  then show ?case by simp
next
  case (Cons item items)
  let ?content = "dict_get item ''content'' []"
  consider
      (head) result where "structured k (take 3000 ?content) = Inr result"
        and "j = with_page_url item result"
    | (tail) "j \<in> set (llm_extract_loop structured (Suc k) items)"
    using Cons.prems by (auto simp: Let_def split: if_splits sum.splits)
  then show ?case
  proof cases
    case head
    then have "0 < length (item # items)
        \<and> structured (k + 0) (take 3000 (dict_get ((item # items) ! 0) ''content'' [])) = Inr result
        \<and> j = with_page_url ((item # items) ! 0) result"
      by simp
    then show ?thesis by blast
  next
    case tail
    from Cons.IH [OF tail] obtain i result where
      "i < length items"
      "structured (Suc k + i) (take 3000 (dict_get (items ! i) ''content'' [])) = Inr result"
      "j = with_page_url (items ! i) result"
      by blast
    then have "Suc i < length (item # items)
        \<and> structured (k + Suc i) (take 3000 (dict_get ((item # items) ! Suc i) ''content'' [])) = Inr result
        \<and> j = with_page_url ((item # items) ! Suc i) result"
      by simp
    then show ?thesis by blast
  qed
qed

lemma with_page_url_fields:
  "job_title (with_page_url item result) = job_title result
   \<and> company (with_page_url item result) = company result
   \<and> apply_url (with_page_url item result) =
       (if apply_url result = None \<or> apply_url result = Some []
        then Some (url_of item) else apply_url result)"
  by (simp add: with_page_url_def url_of_def)

text \<open>
  Claim C3 fails as stated. Under the LLM strategy the record that the completion
  returns is appended as it is, so a completion with an empty title and an empty company
  yields a job with both empty; under the fallback strategy a page whose title is the
  empty string yields a job with an empty title.
\<close>

theorem extracted_title_and_company_may_be_empty:
  "ExtractionAgent_run (Some blank_llm) [page_complete] =
     [\<lparr>job_title = [], company = [], location = ''Remote'',
       apply_url = Some ''https://jobs.example/1'', description = None\<rparr>]
   \<and> job_title (hd (ExtractionAgent_run None [page_empty_title])) = []"
  by (simp add: ExtractionAgent_run_def ExtractionAgent_mock_extract_def mock_job_def
      blank_llm_def with_page_url_def page_complete_def page_empty_title_def dict_get_def)

text \<open>
  Claim C3, amended. Under the fallback strategy there is one job per page, in order;
  its company is the non-empty \<open>Unknown Company\<close>, its title is non-empty whenever the
  page has no title entry or a non-empty one, and its \<open>apply_url\<close> is the url of the
  page. Under the LLM strategy every job of the output comes from a page of the input
  and the record the completion returned for it: title and company are the returned
  ones, whatever they are, and \<open>apply_url\<close> is the url of the page whenever the
  returned one is absent or empty, and the returned one otherwise.
\<close>

theorem extracted_job_defaults:
  "length (ExtractionAgent_run None pages) = length pages
   \<and> (\<forall>i<length pages.
        company (ExtractionAgent_run None pages ! i) = ''Unknown Company''
        \<and> company (ExtractionAgent_run None pages ! i) \<noteq> []
        \<and> ((pages ! i) ''title'' \<noteq> Some [] \<longrightarrow>
             job_title (ExtractionAgent_run None pages ! i) \<noteq> [])
        \<and> apply_url (ExtractionAgent_run None pages ! i) = Some (url_of (pages ! i)))
   \<and> (\<forall>j\<in>set (ExtractionAgent_run (Some structured) pages).
        \<exists>i result. i < length pages
          \<and> structured i (take 3000 (dict_get (pages ! i) ''content'' [])) = Inr result
          \<and> job_title j = job_title result
          \<and> company j = company result
          \<and> apply_url j =
              (if apply_url result = None \<or> apply_url result = Some []
               then Some (url_of (pages ! i)) else apply_url result))"
proof (intro conjI allI impI ballI)
  show "length (ExtractionAgent_run None pages) = length pages"
    by (simp add: ExtractionAgent_run_def ExtractionAgent_mock_extract_def)
next
  fix i assume "i < length pages"
  then have at: "ExtractionAgent_run None pages ! i = mock_job (pages ! i)"
    by (simp add: ExtractionAgent_run_def ExtractionAgent_mock_extract_def)
  show "company (ExtractionAgent_run None pages ! i) = ''Unknown Company''"
    by (simp add: at mock_job_def)
  show "company (ExtractionAgent_run None pages ! i) \<noteq> []"
    by (simp add: at mock_job_def)
  show "apply_url (ExtractionAgent_run None pages ! i) = Some (url_of (pages ! i))"
    by (simp add: at mock_job_def url_of_def)
  assume "(pages ! i) ''title'' \<noteq> Some []"
  then show "job_title (ExtractionAgent_run None pages ! i) \<noteq> []"
    by (auto simp: at mock_job_def dict_get_def split: option.splits)
next
  fix j assume "j \<in> set (ExtractionAgent_run (Some structured) pages)"
  then have "j \<in> set (llm_extract_loop structured 0 pages)"
    by (simp add: ExtractionAgent_run_def)
  from llm_extract_loop_origin [OF this] obtain i result where
    "i < length pages"
    "structured i (take 3000 (dict_get (pages ! i) ''content'' [])) = Inr result"
    "j = with_page_url (pages ! i) result"
    by auto
  then show "\<exists>i result. i < length pages
          \<and> structured i (take 3000 (dict_get (pages ! i) ''content'' [])) = Inr result
          \<and> job_title j = job_title result
          \<and> company j = company result
          \<and> apply_url j =
              (if apply_url result = None \<or> apply_url result = Some []
               then Some (url_of (pages ! i)) else apply_url result)"
    using with_page_url_fields by blast
qed

text \<open>
  At the complete page the fallback job has the page's title, the fixed company and the
  page's url; a completion that returns a url of its own keeps it.
\<close>

theorem extracted_job_defaults_witness:
  "page_complete ''title'' \<noteq> Some []
   \<and> job_title (ExtractionAgent_run None [page_complete] ! 0) = ''Backend Developer''
   \<and> company (ExtractionAgent_run None [page_complete] ! 0) = ''Unknown Company''
   \<and> apply_url (ExtractionAgent_run None [page_complete] ! 0) = Some ''https://jobs.example/1''
   \<and> ExtractionAgent_run (Some full_llm) [page_complete] =
       [\<lparr>job_title = ''Backend Developer'', company = ''Acme'', location = ''Pune'',
         apply_url = Some ''https://acme.example/apply'', description = None\<rparr>]
   \<and> apply_url (hd (ExtractionAgent_run (Some blank_llm) [page_complete])) =
       Some (url_of page_complete)"
  using extracted_job_defaults [of "[page_complete]" full_llm]
  by (simp add: ExtractionAgent_run_def ExtractionAgent_mock_extract_def mock_job_def
      full_llm_def blank_llm_def with_page_url_def page_complete_def dict_get_def url_of_def)

section \<open>Coordinate Resolver\<close>

lemma str_in_sublist: "str_in k s \<longleftrightarrow> sublist k s"
  by (induction s) (simp_all add: sublist_Cons_right)

lemma cache_scan_find:
  "cache_scan table s = map_option snd (find (\<lambda>(k, c). sublist k s) table)"
  by (induction table) (auto simp: str_in_sublist)

lemma geocode_location_raises:
  "fst (GeocodingAgent_geocode_location lookup loc) = Inl e \<Longrightarrow>
     lookup (loc @ '', India'') = Inl e \<and> \<not> geocoder_caught e"
  by (auto simp: GeocodingAgent_geocode_location_def Let_def
      split: if_splits option.splits sum.splits)

lemma timbuktu_not_cached: "cache_scan CITY_CACHE (strip (lower ''Timbuktu'')) = None"
  by (simp add: CITY_CACHE_def strip_def lower_def lower_char_def isspace_def)

lemma koramangala_cached:
  "cache_scan CITY_CACHE (strip (lower ''Koramangala, Bangalore'')) = Some (12.9716, 77.5946)"
  by (simp add: CITY_CACHE_def strip_def lower_def lower_char_def isspace_def)

text \<open>
  Claim C5 fails as stated in its last part: the handler around the lookup names two
  exception classes, and an exception of another class leaves the resolver. Here the
  location is in no cached city and the lookup raises such an exception.
\<close>

theorem geocode_location_can_raise:
  "fst (GeocodingAgent_geocode_location broken_geocoder ''Timbuktu'') =
     Inl (OtherException ''malformed response'')"
  by (simp add: GeocodingAgent_geocode_location_def timbuktu_not_cached broken_geocoder_def
      geocoder_caught_def)

text \<open>
  Claim C5, amended. The empty location resolves to the default centre at once. A
  non-empty location whose lowercased, trimmed form contains a key of the city table
  resolves to the coordinates of the first such key in table order, with no sleep and
  no lookup. Otherwise the resolver sleeps, makes one lookup of the location followed
  by \<open>, India\<close>, and returns the coordinates found, or the default centre when
  nothing is found or the lookup raises a timeout or a service error; it raises exactly
  when the lookup raises an exception of another class.
\<close>

theorem geocode_location_resolution:
  "GeocodingAgent_geocode_location lookup [] = (Inr (20.5937, 78.9629), [])
   \<and> (loc \<noteq> [] \<and> find (\<lambda>(k, c). sublist k (strip (lower loc))) CITY_CACHE = Some (key, c)
        \<longrightarrow> GeocodingAgent_geocode_location lookup loc = (Inr c, []))
   \<and> (loc \<noteq> [] \<and> find (\<lambda>(k, c). sublist k (strip (lower loc))) CITY_CACHE = None
        \<longrightarrow> GeocodingAgent_geocode_location lookup loc =
             (case lookup (loc @ '', India'') of
                Inr (Some found) \<Rightarrow> Inr found
              | Inr None \<Rightarrow> Inr (20.5937, 78.9629)
              | Inl e \<Rightarrow> if geocoder_caught e then Inr (20.5937, 78.9629) else Inl e,
              [Sleep 1, Lookup (loc @ '', India'') 10]))
   \<and> (geocoder_caught e \<longleftrightarrow> (\<exists>m. e = GeocoderTimedOut m \<or> e = GeocoderServiceError m))
   \<and> ((\<exists>e. fst (GeocodingAgent_geocode_location lookup loc) = Inl e) \<longleftrightarrow>
        loc \<noteq> [] \<and> find (\<lambda>(k, c). sublist k (strip (lower loc))) CITY_CACHE = None
        \<and> (\<exists>e. lookup (loc @ '', India'') = Inl e \<and> \<not> geocoder_caught e))"
proof (intro conjI impI)
  show "GeocodingAgent_geocode_location lookup [] = (Inr (20.5937, 78.9629), [])"
    by (simp add: GeocodingAgent_geocode_location_def)
next
  assume "loc \<noteq> [] \<and> find (\<lambda>(k, c). sublist k (strip (lower loc))) CITY_CACHE = Some (key, c)"
  then show "GeocodingAgent_geocode_location lookup loc = (Inr c, [])"
    by (simp add: GeocodingAgent_geocode_location_def cache_scan_find)
next
  assume "loc \<noteq> [] \<and> find (\<lambda>(k, c). sublist k (strip (lower loc))) CITY_CACHE = None"
  then show "GeocodingAgent_geocode_location lookup loc =
             (case lookup (loc @ '', India'') of
                Inr (Some found) \<Rightarrow> Inr found
              | Inr None \<Rightarrow> Inr (20.5937, 78.9629)
              | Inl e \<Rightarrow> if geocoder_caught e then Inr (20.5937, 78.9629) else Inl e,
              [Sleep 1, Lookup (loc @ '', India'') 10])"
    by (simp add: GeocodingAgent_geocode_location_def cache_scan_find Let_def
        split: sum.splits option.splits)
next
  show "geocoder_caught e \<longleftrightarrow> (\<exists>m. e = GeocoderTimedOut m \<or> e = GeocoderServiceError m)"
    by (cases e) (simp_all add: geocoder_caught_def)
next
  show "(\<exists>e. fst (GeocodingAgent_geocode_location lookup loc) = Inl e) \<longleftrightarrow>
        loc \<noteq> [] \<and> find (\<lambda>(k, c). sublist k (strip (lower loc))) CITY_CACHE = None
        \<and> (\<exists>e. lookup (loc @ '', India'') = Inl e \<and> \<not> geocoder_caught e)"
    by (auto simp: GeocodingAgent_geocode_location_def cache_scan_find Let_def
        split: if_splits option.splits sum.splits)
qed

text \<open>
  The examples of the claim: a location in Bangalore resolves from the table without a
  lookup, whatever the lookup would do; the empty location and an unknown location
  whose lookup times out or finds nothing resolve to the default centre.
\<close>

theorem geocode_location_resolution_witness:
  "GeocodingAgent_geocode_location broken_geocoder ''Koramangala, Bangalore'' =
     (Inr (12.9716, 77.5946), [])
   \<and> GeocodingAgent_geocode_location broken_geocoder [] = (Inr (20.5937, 78.9629), [])
   \<and> GeocodingAgent_geocode_location timed_out_geocoder ''Timbuktu'' =
       (Inr (20.5937, 78.9629), [Sleep 1, Lookup ''Timbuktu, India'' 10])
   \<and> GeocodingAgent_geocode_location empty_geocoder ''Timbuktu'' =
       (Inr (20.5937, 78.9629), [Sleep 1, Lookup ''Timbuktu, India'' 10])
   \<and> find (\<lambda>(k, c). sublist k (strip (lower ''Koramangala, Bangalore''))) CITY_CACHE =
       Some (''bangalore'', (12.9716, 77.5946))"
proof -
  have first: "find (\<lambda>(k, c). sublist k (strip (lower ''Koramangala, Bangalore''))) CITY_CACHE =
       Some (''bangalore'', (12.9716, 77.5946))"
    by (simp add: CITY_CACHE_def strip_def lower_def lower_char_def isspace_def
        str_in_sublist [symmetric])
  have "GeocodingAgent_geocode_location broken_geocoder ''Koramangala, Bangalore'' =
     (Inr (12.9716, 77.5946), [])"
    using geocode_location_resolution
      [of broken_geocoder "''Koramangala, Bangalore''" "''bangalore''" "(12.9716, 77.5946)"] first
    by simp
  then show ?thesis
    using first
    by (simp add: GeocodingAgent_geocode_location_def timbuktu_not_cached
        timed_out_geocoder_def empty_geocoder_def geocoder_caught_def)
qed

lemma geocode_loop_returns:
  "(\<forall>i<length jobs. \<forall>e. geocode (k + i) (location (jobs ! i) @ '', India'') = Inl e
        \<longrightarrow> geocoder_caught e) \<Longrightarrow>
     \<exists>out. geocode_loop geocode k jobs = Inr out"
proof (induction jobs arbitrary: k)
  case Nil
  then show ?case by simp
next
  case (Cons job jobs)
  have "\<forall>i<length jobs. \<forall>e. geocode (Suc k + i) (location (jobs ! i) @ '', India'') = Inl e
          \<longrightarrow> geocoder_caught e"
  proof (intro allI impI)
    fix i e
    assume "i < length jobs" "geocode (Suc k + i) (location (jobs ! i) @ '', India'') = Inl e"
    then show "geocoder_caught e"
      using Cons.prems [rule_format, of "Suc i" e] by simp
  qed
  from Cons.IH [OF this] obtain rest where rest: "geocode_loop geocode (Suc k) jobs = Inr rest"
    by blast
  have head: "\<forall>e. geocode k (location job @ '', India'') = Inl e \<longrightarrow> geocoder_caught e"
    using Cons.prems [rule_format, of 0] by simp
  have "\<exists>c. fst (GeocodingAgent_geocode_location (geocode k) (location job)) = Inr c"
  proof (cases "fst (GeocodingAgent_geocode_location (geocode k) (location job))")
    case (Inl e)
    from geocode_location_raises [OF this] head show ?thesis by blast
  next
    case (Inr c)
    then show ?thesis by blast
  qed
  then show ?case using rest by auto
qed

lemma geocode_loop_frame:
  "geocode_loop geocode k jobs = Inr out \<Longrightarrow>
     length out = length jobs
     \<and> (\<forall>i<length jobs.
          job_title (out ! i) = job_title (jobs ! i)
          \<and> company (out ! i) = company (jobs ! i)
          \<and> location (out ! i) = location (jobs ! i)
          \<and> apply_url (out ! i) = apply_url (jobs ! i)
          \<and> description (out ! i) = description (jobs ! i)
          \<and> fst (GeocodingAgent_geocode_location (geocode (k + i)) (location (jobs ! i))) =
              Inr (lat (out ! i), lng (out ! i)))"
proof (induction jobs arbitrary: k out)
  case Nil
  then show ?case by simp
next
  case (Cons job jobs)
  from Cons.prems obtain c rest where
    c: "fst (GeocodingAgent_geocode_location (geocode k) (location job)) = Inr c" and
    rest: "geocode_loop geocode (Suc k) jobs = Inr rest" and
    out: "out = geocoded job c # rest"
    by (auto split: sum.splits)
  note ih = Cons.IH [OF rest]
  have len: "length out = length (job # jobs)"
    using ih out by simp
  have "\<forall>i<length (job # jobs).
          job_title (out ! i) = job_title ((job # jobs) ! i)
          \<and> company (out ! i) = company ((job # jobs) ! i)
          \<and> location (out ! i) = location ((job # jobs) ! i)
          \<and> apply_url (out ! i) = apply_url ((job # jobs) ! i)
          \<and> description (out ! i) = description ((job # jobs) ! i)
          \<and> fst (GeocodingAgent_geocode_location (geocode (k + i)) (location ((job # jobs) ! i))) =
              Inr (lat (out ! i), lng (out ! i))"
  proof (intro allI impI)
    fix i assume i: "i < length (job # jobs)"
    show "job_title (out ! i) = job_title ((job # jobs) ! i)
          \<and> company (out ! i) = company ((job # jobs) ! i)
          \<and> location (out ! i) = location ((job # jobs) ! i)
          \<and> apply_url (out ! i) = apply_url ((job # jobs) ! i)
          \<and> description (out ! i) = description ((job # jobs) ! i)
          \<and> fst (GeocodingAgent_geocode_location (geocode (k + i)) (location ((job # jobs) ! i))) =
              Inr (lat (out ! i), lng (out ! i))"
    proof (cases i)
      case 0
      then show ?thesis using out c by (simp add: geocoded_def)
    next
      case (Suc n)
      then have "n < length jobs" using i by simp
      with ih Suc out show ?thesis by simp
    qed
  qed
  with len show ?case by blast
qed

text \<open>
  Claim C8 fails as stated: the batch loop has no handler of its own, so a lookup that
  raises an exception outside the two classes the resolver catches ends the whole call
  and no geocoded job is returned for any input job.
\<close>

theorem geocoding_run_can_raise:
  "GeocodingAgent_run (\<lambda>i. broken_geocoder) [job_bangalore, job_timbuktu] =
     Inl (OtherException ''malformed response'')"
  by (simp add: GeocodingAgent_run_def GeocodingAgent_geocode_location_def
      timbuktu_not_cached koramangala_cached broken_geocoder_def geocoder_caught_def
      job_bangalore_def job_timbuktu_def)

text \<open>
  Claim C8, amended. Whenever the batch wrapper returns, it returns exactly one geocoded
  job per input job, in the same order, with title, company, location, \<open>apply_url\<close> and
  description unchanged and with the coordinates the resolver gave for that job's
  location. It returns whenever no lookup raises an exception other than a timeout or a
  service error.
\<close>

theorem geocoding_run_frame:
  "(GeocodingAgent_run geocode jobs = Inr out \<longrightarrow>
      length out = length jobs
      \<and> (\<forall>i<length jobs.
           job_title (out ! i) = job_title (jobs ! i)
           \<and> company (out ! i) = company (jobs ! i)
           \<and> location (out ! i) = location (jobs ! i)
           \<and> apply_url (out ! i) = apply_url (jobs ! i)
           \<and> description (out ! i) = description (jobs ! i)
           \<and> fst (GeocodingAgent_geocode_location (geocode i) (location (jobs ! i))) =
               Inr (lat (out ! i), lng (out ! i))))
   \<and> ((\<forall>i<length jobs. \<forall>e. geocode i (location (jobs ! i) @ '', India'') = Inl e
          \<longrightarrow> geocoder_caught e)
       \<longrightarrow> (\<exists>res. GeocodingAgent_run geocode jobs = Inr res))"
proof (rule conjI; rule impI)
  assume "GeocodingAgent_run geocode jobs = Inr out"
  then have "geocode_loop geocode 0 jobs = Inr out"
    by (simp add: GeocodingAgent_run_def)
  from geocode_loop_frame [OF this]
  show "length out = length jobs
      \<and> (\<forall>i<length jobs.
           job_title (out ! i) = job_title (jobs ! i)
           \<and> company (out ! i) = company (jobs ! i)
           \<and> location (out ! i) = location (jobs ! i)
           \<and> apply_url (out ! i) = apply_url (jobs ! i)
           \<and> description (out ! i) = description (jobs ! i)
           \<and> fst (GeocodingAgent_geocode_location (geocode i) (location (jobs ! i))) =
               Inr (lat (out ! i), lng (out ! i)))"
    by simp
next
  assume "\<forall>i<length jobs. \<forall>e. geocode i (location (jobs ! i) @ '', India'') = Inl e
          \<longrightarrow> geocoder_caught e"
  then have "\<forall>i<length jobs. \<forall>e. geocode (0 + i) (location (jobs ! i) @ '', India'') = Inl e
          \<longrightarrow> geocoder_caught e"
    by simp
  from geocode_loop_returns [OF this]
  show "\<exists>res. GeocodingAgent_run geocode jobs = Inr res"
    by (simp add: GeocodingAgent_run_def)
qed

text \<open>
  With a lookup that times out, the job in Bangalore gets the cached coordinates, the
  job in Timbuktu the default centre, and both keep their other fields.
\<close>

lemma example_geocoding_run:
  "GeocodingAgent_run (\<lambda>i. timed_out_geocoder) [job_bangalore, job_timbuktu] =
     Inr [\<lparr>job_title = ''Developer'', company = ''Test Corp'',
           location = ''Koramangala, Bangalore'',
           apply_url = Some ''https://example.com'', description = None,
           lat = 12.9716, lng = 77.5946\<rparr>,
          \<lparr>job_title = ''Engineer'', company = ''Sahara Inc'', location = ''Timbuktu'',
           apply_url = None, description = Some ''On site'',
           lat = 20.5937, lng = 78.9629\<rparr>]"
  by (simp add: GeocodingAgent_run_def GeocodingAgent_geocode_location_def
      timbuktu_not_cached koramangala_cached timed_out_geocoder_def geocoder_caught_def
      job_bangalore_def job_timbuktu_def geocoded_def)

theorem geocoding_run_frame_witness:
  "(\<exists>out. GeocodingAgent_run (\<lambda>i. timed_out_geocoder) [job_bangalore, job_timbuktu] = Inr out
      \<and> length out = 2
      \<and> location (out ! 1) = ''Timbuktu''
      \<and> description (out ! 1) = Some ''On site''
      \<and> company (out ! 0) = ''Test Corp'')
   \<and> geocoder_caught (GeocoderTimedOut ''Service timed out'')"
  using geocoding_run_frame [of "\<lambda>i. timed_out_geocoder" "[job_bangalore, job_timbuktu]"]
  by (simp add: example_geocoding_run geocoder_caught_def)

section \<open>Persistence Sink\<close>

lemma index_loop_all_added:
  "(\<forall>(k, job)\<in>set (enumerate i jobs). db_add env k (db_row env k job) = None) \<Longrightarrow>
     index_loop env i jobs pending indexed ops =
       (None,
        pending @ map (\<lambda>(k, job). db_row env k job) (enumerate i jobs),
        indexed @ map (\<lambda>(k, job). indexed_record env k job) (enumerate i jobs),
        ops @ map (\<lambda>(k, job). Add (db_row env k job)) (enumerate i jobs))"
proof (induction jobs arbitrary: i pending indexed ops)
  case Nil
  then show ?case by simp
next
  case (Cons job jobs)
  have head: "db_add env i (db_row env i job) = None"
    using Cons.prems by simp
  have rest: "\<forall>(k, job)\<in>set (enumerate (Suc i) jobs). db_add env k (db_row env k job) = None"
    using Cons.prems by simp
  show ?case
    using head Cons.IH [OF rest] by (simp add: Let_def)
qed

lemma index_loop_add_fails:
  "n < length jobs \<Longrightarrow>
   (\<forall>(k, job)\<in>set (take n (enumerate i jobs)). db_add env k (db_row env k job) = None) \<Longrightarrow>
   db_add env (i + n) (db_row env (i + n) (jobs ! n)) = Some e \<Longrightarrow>
     index_loop env i jobs pending indexed ops =
       (Some e,
        pending @ map (\<lambda>(k, job). db_row env k job) (take n (enumerate i jobs)),
        indexed @ map (\<lambda>(k, job). indexed_record env k job) (take n (enumerate i jobs)),
        ops @ map (\<lambda>(k, job). Add (db_row env k job)) (take (Suc n) (enumerate i jobs)))"
proof (induction jobs arbitrary: i n pending indexed ops)
  case Nil
  then show ?case by simp
next
  case (Cons job jobs)
  show ?case
  proof (cases n)
    case 0
    then show ?thesis using Cons.prems by (simp add: Let_def)
  next
    case (Suc m)
    have head: "db_add env i (db_row env i job) = None"
      using Cons.prems Suc by simp
    have m: "m < length jobs" using Cons.prems Suc by simp
    have rest: "\<forall>(k, job)\<in>set (take m (enumerate (Suc i) jobs)).
        db_add env k (db_row env k job) = None"
      using Cons.prems Suc by simp
    have fails: "db_add env (Suc i + m) (db_row env (Suc i + m) (jobs ! m)) = Some e"
      using Cons.prems Suc by simp
    show ?thesis
      using head Suc Cons.IH [OF m rest fails] by (simp add: Let_def)
  qed
qed

lemma batch_rows_nth:
  "k < length jobs \<Longrightarrow> batch_rows env jobs ! k = db_row env k (jobs ! k)"
  by (simp add: batch_rows_def nth_enumerate_eq)

lemma adds_ok_enumerate:
  "(\<forall>k<n. db_add env k (batch_rows env jobs ! k) = None) \<Longrightarrow> n \<le> length jobs \<Longrightarrow>
     \<forall>(k, job)\<in>set (take n (enumerate 0 jobs)). db_add env k (db_row env k job) = None"
proof (intro ballI)
  fix x
  assume ok: "\<forall>k<n. db_add env k (batch_rows env jobs ! k) = None" and n: "n \<le> length jobs"
    and x: "x \<in> set (take n (enumerate 0 jobs))"
  from x obtain j where j: "j < length (take n (enumerate 0 jobs))"
      and xj: "x = take n (enumerate 0 jobs) ! j"
    by (auto simp: in_set_conv_nth)
  have jn: "j < n" and jl: "j < length jobs" using j n by simp_all
  have "x = (j, jobs ! j)"
    using xj jn jl by (simp add: nth_enumerate_eq)
  moreover have "db_add env j (batch_rows env jobs ! j) = None"
    using ok jn by blast
  then have "db_add env j (db_row env j (jobs ! j)) = None"
    using batch_rows_nth [OF jl, of env] by simp
  ultimately show "case x of (k, job) \<Rightarrow> db_add env k (db_row env k job) = None"
    by simp
qed

lemma run_all_added:
  assumes "\<forall>k<length jobs. db_add env k (batch_rows env jobs ! k) = None"
  shows "IndexingAgent_run env jobs =
     (case db_commit env (batch_rows env jobs) of
        None \<Rightarrow>
          \<lparr>returned = batch_records env jobs, committed = batch_rows env jobs,
           db_ops = map Add (batch_rows env jobs) @ [Commit, Close]\<rparr>
      | Some e \<Rightarrow>
          \<lparr>returned = batch_records env jobs, committed = [],
           db_ops = map Add (batch_rows env jobs) @ [Commit, Rollback, Close]\<rparr>)"
proof -
  have "\<forall>(k, job)\<in>set (enumerate 0 jobs). db_add env k (db_row env k job) = None"
    using adds_ok_enumerate [OF assms] by simp
  from index_loop_all_added [OF this, of "[]" "[]" "[]"] show ?thesis
    by (simp add: IndexingAgent_run_def batch_rows_def batch_records_def comp_def
        case_prod_unfold split: option.splits)
qed

lemma run_add_fails:
  assumes "n < length jobs"
    and "\<forall>k<n. db_add env k (batch_rows env jobs ! k) = None"
    and "db_add env n (batch_rows env jobs ! n) = Some e"
  shows "IndexingAgent_run env jobs =
     \<lparr>returned = take n (batch_records env jobs), committed = [],
      db_ops = map Add (take (Suc n) (batch_rows env jobs)) @ [Rollback, Close]\<rparr>"
proof -
  have ok: "\<forall>(k, job)\<in>set (take n (enumerate 0 jobs)). db_add env k (db_row env k job) = None"
    using adds_ok_enumerate [OF assms(2)] assms(1) by simp
  have fails: "db_add env (0 + n) (db_row env (0 + n) (jobs ! n)) = Some e"
    using assms(1,3) by (simp add: batch_rows_nth)
  from index_loop_add_fails [OF assms(1) ok fails, of "[]" "[]" "[]"] show ?thesis
    by (simp add: IndexingAgent_run_def batch_rows_def batch_records_def comp_def
        case_prod_unfold take_map)
qed

lemma count_adds:
  "count_list (map Add rows) Commit = 0 \<and> count_list (map Add rows) Close = 0
   \<and> Rollback \<notin> set (map Add rows)"
  by (induction rows) auto

lemma run_cases:
  obtains
    (all_committed) "\<forall>k<length jobs. db_add env k (batch_rows env jobs ! k) = None"
      and "db_commit env (batch_rows env jobs) = None"
  | (commit_failed) e where "\<forall>k<length jobs. db_add env k (batch_rows env jobs ! k) = None"
      and "db_commit env (batch_rows env jobs) = Some e"
  | (add_failed) n e where "n < length jobs"
      and "\<forall>k<n. db_add env k (batch_rows env jobs ! k) = None"
      and "db_add env n (batch_rows env jobs ! n) = Some e"
proof (cases "\<exists>k. k < length jobs \<and> db_add env k (batch_rows env jobs ! k) \<noteq> None")
  case True
  define n where "n = (LEAST k. k < length jobs \<and> db_add env k (batch_rows env jobs ! k) \<noteq> None)"
  have n: "n < length jobs \<and> db_add env n (batch_rows env jobs ! n) \<noteq> None"
    unfolding n_def using True by (rule LeastI_ex)
  have before: "\<forall>k<n. db_add env k (batch_rows env jobs ! k) = None"
  proof (intro allI impI)
    fix k assume k: "k < n"
    then have "\<not> (k < length jobs \<and> db_add env k (batch_rows env jobs ! k) \<noteq> None)"
      unfolding n_def by (rule not_less_Least)
    moreover have "k < length jobs" using k n by simp
    ultimately show "db_add env k (batch_rows env jobs ! k) = None" by simp
  qed
  from n obtain e where "db_add env n (batch_rows env jobs ! n) = Some e" by auto
  with n before show ?thesis using add_failed by blast
next
  case False
  then have ok: "\<forall>k<length jobs. db_add env k (batch_rows env jobs ! k) = None" by simp
  show ?thesis
  proof (cases "db_commit env (batch_rows env jobs)")
    case None
    with ok show ?thesis using all_committed by blast
  next
    case (Some e)
    with ok show ?thesis using commit_failed by blast
  qed
qed

lemma run_shape:
  "count_list (db_ops (IndexingAgent_run env jobs)) Commit =
     (if \<forall>k<length jobs. db_add env k (batch_rows env jobs ! k) = None then 1 else 0)
   \<and> count_list (db_ops (IndexingAgent_run env jobs)) Close = 1
   \<and> last (db_ops (IndexingAgent_run env jobs)) = Close
   \<and> (committed (IndexingAgent_run env jobs) = []
        \<or> committed (IndexingAgent_run env jobs) = batch_rows env jobs
           \<and> Rollback \<notin> set (db_ops (IndexingAgent_run env jobs)))
   \<and> prefix (returned (IndexingAgent_run env jobs)) (batch_records env jobs)"
proof (cases rule: run_cases [of jobs env])
  case all_committed
  then show ?thesis
    using count_adds [of "batch_rows env jobs"] by (simp add: run_all_added)
next
  case (commit_failed e)
  then show ?thesis
    using count_adds [of "batch_rows env jobs"] by (simp add: run_all_added)
next
  case (add_failed n e)
  then have "\<not> (\<forall>k<length jobs. db_add env k (batch_rows env jobs ! k) = None)"
    by auto
  then show ?thesis
    using count_adds [of "take (Suc n) (batch_rows env jobs)"] run_add_fails [OF add_failed]
    by (simp add: take_is_prefix)
qed

text \<open>
  Claim C2 fails as stated in its first part: a commit is attempted only when the
  per-job loop ends without an exception. Here the add of the second job raises; the
  session sees two adds, a rollback and a close, and no commit.
\<close>

theorem no_commit_when_loop_raises:
  "count_list (db_ops (IndexingAgent_run stores_add_fails three_jobs)) Commit = 0
   \<and> map idx_id (returned (IndexingAgent_run stores_add_fails three_jobs)) = [''id-a'']
   \<and> committed (IndexingAgent_run stores_add_fails three_jobs) = []"
proof -
  have "IndexingAgent_run stores_add_fails three_jobs =
     \<lparr>returned = take 1 (batch_records stores_add_fails three_jobs), committed = [],
      db_ops = map Add (take (Suc 1) (batch_rows stores_add_fails three_jobs)) @ [Rollback, Close]\<rparr>"
    by (rule run_add_fails)
      (simp_all add: stores_add_fails_def example_stores_def three_jobs_def)
  then show ?thesis
    using count_adds [of "take (Suc 1) (batch_rows stores_add_fails three_jobs)"]
    by (simp add: batch_records_def three_jobs_def indexed_record_def stores_add_fails_def
        example_stores_def enumerate_eq_zip upt_rec [of 0] take_Suc_conv_app_nth)
qed

text \<open>
  Claim C2, amended. Each call is one of three runs. If every add returns and the commit
  returns, the session sees the adds, one commit and the close, and all rows are
  committed. If every add returns and the commit raises, it sees the adds, one commit,
  a rollback and the close, and nothing is committed. If the add of the job at position
  \<open>n\<close> raises after the earlier ones returned, it sees the adds up to that one, a
  rollback and the close, with no commit, and nothing is committed. So at most one
  commit is attempted, and exactly one precisely when the loop ends without an
  exception; either the whole batch is committed, without a rollback, or nothing is;
  the close is the last call of every run and happens once; and the call always returns
  the in-memory list, which holds the records of the jobs added before the failure,
  whether or not their rows are committed.
\<close>

theorem index_batch_commit_and_rollback:
  "((\<forall>k<length jobs. db_add env k (batch_rows env jobs ! k) = None)
      \<and> db_commit env (batch_rows env jobs) = None \<longrightarrow>
      IndexingAgent_run env jobs =
        \<lparr>returned = batch_records env jobs, committed = batch_rows env jobs,
         db_ops = map Add (batch_rows env jobs) @ [Commit, Close]\<rparr>)
   \<and> ((\<forall>k<length jobs. db_add env k (batch_rows env jobs ! k) = None)
      \<and> db_commit env (batch_rows env jobs) = Some e \<longrightarrow>
      IndexingAgent_run env jobs =
        \<lparr>returned = batch_records env jobs, committed = [],
         db_ops = map Add (batch_rows env jobs) @ [Commit, Rollback, Close]\<rparr>)
   \<and> (n < length jobs
      \<and> (\<forall>k<n. db_add env k (batch_rows env jobs ! k) = None)
      \<and> db_add env n (batch_rows env jobs ! n) = Some e \<longrightarrow>
      IndexingAgent_run env jobs =
        \<lparr>returned = take n (batch_records env jobs), committed = [],
         db_ops = map Add (take (Suc n) (batch_rows env jobs)) @ [Rollback, Close]\<rparr>)
   \<and> count_list (db_ops (IndexingAgent_run env jobs)) Commit =
       (if \<forall>k<length jobs. db_add env k (batch_rows env jobs ! k) = None then 1 else 0)
   \<and> count_list (db_ops (IndexingAgent_run env jobs)) Close = 1
   \<and> last (db_ops (IndexingAgent_run env jobs)) = Close
   \<and> (committed (IndexingAgent_run env jobs) = []
        \<or> committed (IndexingAgent_run env jobs) = batch_rows env jobs
           \<and> Rollback \<notin> set (db_ops (IndexingAgent_run env jobs)))
   \<and> prefix (returned (IndexingAgent_run env jobs)) (batch_records env jobs)"
proof -
  have one: "(\<forall>k<length jobs. db_add env k (batch_rows env jobs ! k) = None)
      \<and> db_commit env (batch_rows env jobs) = None \<longrightarrow>
      IndexingAgent_run env jobs =
        \<lparr>returned = batch_records env jobs, committed = batch_rows env jobs,
         db_ops = map Add (batch_rows env jobs) @ [Commit, Close]\<rparr>"
    by (simp add: run_all_added)
  have two: "(\<forall>k<length jobs. db_add env k (batch_rows env jobs ! k) = None)
      \<and> db_commit env (batch_rows env jobs) = Some e \<longrightarrow>
      IndexingAgent_run env jobs =
        \<lparr>returned = batch_records env jobs, committed = [],
         db_ops = map Add (batch_rows env jobs) @ [Commit, Rollback, Close]\<rparr>"
    by (simp add: run_all_added)
  have three: "n < length jobs
      \<and> (\<forall>k<n. db_add env k (batch_rows env jobs ! k) = None)
      \<and> db_add env n (batch_rows env jobs ! n) = Some e \<longrightarrow>
      IndexingAgent_run env jobs =
        \<lparr>returned = take n (batch_records env jobs), committed = [],
         db_ops = map Add (take (Suc n) (batch_rows env jobs)) @ [Rollback, Close]\<rparr>"
    using run_add_fails by blast
  from one two three run_shape [of env jobs] show ?thesis by blast
qed

text \<open>
  When the commit raises, all three adds and one commit are attempted, the batch is
  rolled back and the session closed, and the call still returns three records although
  no row is committed.
\<close>

theorem index_batch_commit_and_rollback_witness:
  "db_commit stores_commit_fails (batch_rows stores_commit_fails three_jobs) =
       Some (OtherException ''database is locked'')
   \<and> db_ops (IndexingAgent_run stores_commit_fails three_jobs) =
       map Add (batch_rows stores_commit_fails three_jobs) @ [Commit, Rollback, Close]
   \<and> committed (IndexingAgent_run stores_commit_fails three_jobs) = []
   \<and> map idx_id (returned (IndexingAgent_run stores_commit_fails three_jobs)) =
       [''id-a'', ''id-b'', ''id-c'']
   \<and> count_list (db_ops (IndexingAgent_run stores_commit_fails three_jobs)) Commit = 1"
proof -
  have adds: "\<forall>k<length three_jobs.
      db_add stores_commit_fails k (batch_rows stores_commit_fails three_jobs ! k) = None"
    by (simp add: stores_commit_fails_def example_stores_def)
  have commit: "db_commit stores_commit_fails (batch_rows stores_commit_fails three_jobs) =
       Some (OtherException ''database is locked'')"
    by (simp add: stores_commit_fails_def example_stores_def)
  have ids: "map idx_id (batch_records stores_commit_fails three_jobs) =
       [''id-a'', ''id-b'', ''id-c'']"
    by (simp add: batch_records_def three_jobs_def indexed_record_def stores_commit_fails_def
        example_stores_def enumerate_eq_zip upt_rec [of 0] upt_rec [of 1] upt_rec [of 2])
  from index_batch_commit_and_rollback
    [of three_jobs stores_commit_fails "OtherException ''database is locked''" 0]
  have run: "IndexingAgent_run stores_commit_fails three_jobs =
        \<lparr>returned = batch_records stores_commit_fails three_jobs, committed = [],
         db_ops = map Add (batch_rows stores_commit_fails three_jobs) @ [Commit, Rollback, Close]\<rparr>"
    using adds commit by blast
  have count: "count_list (db_ops (IndexingAgent_run stores_commit_fails three_jobs)) Commit = 1"
    using count_adds [of "batch_rows stores_commit_fails three_jobs"] by (simp add: run)
  show ?thesis
    using commit ids count by (simp add: run)
qed

lemma db_row_embedding_id:
  "row_embedding_id (db_row env k job) = embed_job env k (uuid4 env k) job
   \<and> row_id (db_row env k job) = uuid4 env k"
  by (simp add: db_row_def)

text \<open>
  Claim C7. Whether a job's embedding is stored decides one field of its row and
  nothing else. The reference of the row at position \<open>k\<close> is absent when the vector index
  or the embedding client is not configured, when the embedding call for that job
  raises or when the upsert raises, and is the row's own identifier otherwise. Every
  other field of the row is the same whatever the embedding collaborators are, and a
  change of the embedding outcome at one position leaves the rows at all other
  positions as they were. When the adds and the commit return, the committed rows are
  exactly the rows of all jobs, one per job and in order.
\<close>

theorem embedding_failure_only_drops_reference:
  "(embeddings env = Some aembed_query \<and> aembed_query k (text_to_embed job) = Inl e
      \<longrightarrow> row_embedding_id (db_row env k job) = None)
   \<and> (embeddings env = Some aembed_query \<and> pinecone_index env = Some upsert
       \<and> aembed_query k (text_to_embed job) = Inr embedding
       \<and> upsert k (pinecone_vector (uuid4 env k) embedding job) = Some e
      \<longrightarrow> row_embedding_id (db_row env k job) = None)
   \<and> (embeddings env = Some aembed_query \<and> pinecone_index env = Some upsert
       \<and> aembed_query k (text_to_embed job) = Inr embedding
       \<and> upsert k (pinecone_vector (uuid4 env k) embedding job) = None
      \<longrightarrow> row_embedding_id (db_row env k job) = Some (row_id (db_row env k job)))
   \<and> (embeddings env = None \<or> pinecone_index env = None
      \<longrightarrow> row_embedding_id (db_row env k job) = None)
   \<and> (db_row (env\<lparr>embeddings := other_client, pinecone_index := other_index\<rparr>) k job)
         \<lparr>row_embedding_id := None\<rparr> =
       (db_row env k job)\<lparr>row_embedding_id := None\<rparr>
   \<and> (j \<noteq> k \<longrightarrow>
        db_row (env\<lparr>embeddings := Some (aembed_query (k := other_outcome))\<rparr>) j job =
        db_row (env\<lparr>embeddings := Some aembed_query\<rparr>) j job)
   \<and> ((\<forall>i<length jobs. db_add env i (batch_rows env jobs ! i) = None)
       \<and> db_commit env (batch_rows env jobs) = None
      \<longrightarrow> committed (IndexingAgent_run env jobs) = batch_rows env jobs
          \<and> length (committed (IndexingAgent_run env jobs)) = length jobs
          \<and> (\<forall>i<length jobs.
                committed (IndexingAgent_run env jobs) ! i = db_row env i (jobs ! i)))"
proof (intro conjI)
  show "embeddings env = Some aembed_query \<and> aembed_query k (text_to_embed job) = Inl e
      \<longrightarrow> row_embedding_id (db_row env k job) = None"
    by (simp add: db_row_def embed_job_def split: option.splits)
  show "embeddings env = Some aembed_query \<and> pinecone_index env = Some upsert
       \<and> aembed_query k (text_to_embed job) = Inr embedding
       \<and> upsert k (pinecone_vector (uuid4 env k) embedding job) = Some e
      \<longrightarrow> row_embedding_id (db_row env k job) = None"
    by (simp add: db_row_def embed_job_def)
  show "embeddings env = Some aembed_query \<and> pinecone_index env = Some upsert
       \<and> aembed_query k (text_to_embed job) = Inr embedding
       \<and> upsert k (pinecone_vector (uuid4 env k) embedding job) = None
      \<longrightarrow> row_embedding_id (db_row env k job) = Some (row_id (db_row env k job))"
    by (simp add: db_row_def embed_job_def)
  show "embeddings env = None \<or> pinecone_index env = None
      \<longrightarrow> row_embedding_id (db_row env k job) = None"
    by (auto simp: db_row_def embed_job_def split: option.splits)
  show "(db_row (env\<lparr>embeddings := other_client, pinecone_index := other_index\<rparr>) k job)
         \<lparr>row_embedding_id := None\<rparr> =
       (db_row env k job)\<lparr>row_embedding_id := None\<rparr>"
    by (simp add: db_row_def)
  show "j \<noteq> k \<longrightarrow>
        db_row (env\<lparr>embeddings := Some (aembed_query (k := other_outcome))\<rparr>) j job =
        db_row (env\<lparr>embeddings := Some aembed_query\<rparr>) j job"
    by (simp add: db_row_def embed_job_def split: option.splits)
  show "(\<forall>i<length jobs. db_add env i (batch_rows env jobs ! i) = None)
       \<and> db_commit env (batch_rows env jobs) = None
      \<longrightarrow> committed (IndexingAgent_run env jobs) = batch_rows env jobs
          \<and> length (committed (IndexingAgent_run env jobs)) = length jobs
          \<and> (\<forall>i<length jobs.
                committed (IndexingAgent_run env jobs) ! i = db_row env i (jobs ! i))"
    by (simp add: run_all_added batch_rows_nth) (simp add: batch_rows_def)
qed

text \<open>
  The example of the claim: three jobs, the embedding call of the second fails. All
  three rows are committed; the second has no embedding reference and the first and
  third refer to their own identifiers.
\<close>

lemma example_rows:
  "map row_id (batch_rows example_stores three_jobs) = [''id-a'', ''id-b'', ''id-c'']
   \<and> map row_embedding_id (batch_rows example_stores three_jobs) =
       [Some ''id-a'', None, Some ''id-c'']
   \<and> map row_job_title (batch_rows example_stores three_jobs) =
       [''Developer'', ''Engineer'', ''Analyst'']"
  by (simp add: batch_rows_def three_jobs_def db_row_def embed_job_def example_stores_def
      enumerate_eq_zip upt_rec [of 0] upt_rec [of 1] upt_rec [of 2])

theorem embedding_failure_only_drops_reference_witness:
  "length (committed (IndexingAgent_run example_stores three_jobs)) = 3
   \<and> map row_id (committed (IndexingAgent_run example_stores three_jobs)) =
       [''id-a'', ''id-b'', ''id-c'']
   \<and> map row_embedding_id (committed (IndexingAgent_run example_stores three_jobs)) =
       [Some ''id-a'', None, Some ''id-c'']
   \<and> map row_job_title (committed (IndexingAgent_run example_stores three_jobs)) =
       [''Developer'', ''Engineer'', ''Analyst'']
   \<and> db_ops (IndexingAgent_run example_stores three_jobs) =
       map Add (batch_rows example_stores three_jobs) @ [Commit, Close]"
proof -
  have adds: "\<forall>i<length three_jobs.
      db_add example_stores i (batch_rows example_stores three_jobs ! i) = None"
    by (simp add: example_stores_def)
  have commit: "db_commit example_stores (batch_rows example_stores three_jobs) = None"
    by (simp add: example_stores_def)
  from embedding_failure_only_drops_reference [of example_stores _ _ _ _ _ _ _ _ _ _ three_jobs]
  have rows: "committed (IndexingAgent_run example_stores three_jobs) =
      batch_rows example_stores three_jobs"
    using adds commit by blast
  have len: "length (batch_rows example_stores three_jobs) = 3"
    by (simp add: batch_rows_def three_jobs_def)
  have ops: "db_ops (IndexingAgent_run example_stores three_jobs) =
       map Add (batch_rows example_stores three_jobs) @ [Commit, Close]"
    using adds commit by (simp add: run_all_added)
  show ?thesis
    using example_rows by (simp add: rows len ops)
qed

section \<open>The pipeline\<close>

lemma search_node_fields:
  "search_results (search_node self s) =
     (case web_search self (Some (query s)) 10 of Inr r \<Rightarrow> r | Inl e \<Rightarrow> [])"
  by (simp add: search_node_def split: sum.splits)

lemma scrape_node_fields:
  "search_results (scrape_node self s) = search_results s
   \<and> scraped_content (scrape_node self s) =
       (case scraper self (search_results s) of Inr r \<Rightarrow> r | Inl e \<Rightarrow> [])"
  by (simp add: scrape_node_def split: sum.splits)

lemma extract_node_fields:
  "search_results (extract_node self s) = search_results s
   \<and> scraped_content (extract_node self s) = scraped_content s
   \<and> extracted_jobs (extract_node self s) =
       (case extraction self (scraped_content s) of Inr r \<Rightarrow> r | Inl e \<Rightarrow> [])"
  by (simp add: extract_node_def split: sum.splits)

lemma geocode_node_fields:
  "search_results (geocode_node self s) = search_results s
   \<and> scraped_content (geocode_node self s) = scraped_content s
   \<and> extracted_jobs (geocode_node self s) = extracted_jobs s
   \<and> geocoded_jobs (geocode_node self s) =
       (case geocoding self (extracted_jobs s) of Inr r \<Rightarrow> r | Inl e \<Rightarrow> [])"
  by (simp add: geocode_node_def split: sum.splits)

lemma index_node_fields:
  "search_results (index_node self s) = search_results s
   \<and> scraped_content (index_node self s) = scraped_content s
   \<and> extracted_jobs (index_node self s) = extracted_jobs s
   \<and> geocoded_jobs (index_node self s) = geocoded_jobs s
   \<and> indexed_jobs (index_node self s) =
       (case indexing self (geocoded_jobs s) of Inr r \<Rightarrow> r | Inl e \<Rightarrow> [])"
  by (simp add: index_node_def split: sum.splits)

lemma run_fields:
  "search_results (JobDiscoveryPipeline_run self q) =
     (case web_search self (Some (or_empty q)) 10 of Inr r \<Rightarrow> r | Inl e \<Rightarrow> [])
   \<and> scraped_content (JobDiscoveryPipeline_run self q) =
     (case scraper self (search_results (JobDiscoveryPipeline_run self q)) of
        Inr r \<Rightarrow> r | Inl e \<Rightarrow> [])
   \<and> extracted_jobs (JobDiscoveryPipeline_run self q) =
     (case extraction self (scraped_content (JobDiscoveryPipeline_run self q)) of
        Inr r \<Rightarrow> r | Inl e \<Rightarrow> [])
   \<and> geocoded_jobs (JobDiscoveryPipeline_run self q) =
     (case geocoding self (extracted_jobs (JobDiscoveryPipeline_run self q)) of
        Inr r \<Rightarrow> r | Inl e \<Rightarrow> [])
   \<and> indexed_jobs (JobDiscoveryPipeline_run self q) =
     (case indexing self (geocoded_jobs (JobDiscoveryPipeline_run self q)) of
        Inr r \<Rightarrow> r | Inl e \<Rightarrow> [])"
proof -
  have "query (initial_state q) = or_empty q"
    by (simp add: initial_state_def)
  then show ?thesis
    unfolding JobDiscoveryPipeline_run_def
    by (simp only: search_node_fields scrape_node_fields extract_node_fields
        geocode_node_fields index_node_fields simp_thms)
qed

lemma length_scrape_loop: "length (scrape_loop fetch i items) \<le> length items"
proof (induction items arbitrary: i)
  case Nil
  then show ?case by simp
next
  case (Cons item items)
  have "length (scrape_loop fetch (Suc i) items) \<le> length items" by (rule Cons.IH)
  then show ?case
    by (simp add: Let_def split: option.splits)
qed

lemma length_llm_extract_loop: "length (llm_extract_loop structured i items) \<le> length items"
proof (induction items arbitrary: i)
  case Nil
  then show ?case by simp
next
  case (Cons item items)
  have "length (llm_extract_loop structured (Suc i) items) \<le> length items" by (rule Cons.IH)
  then show ?case
    by (simp add: Let_def split: sum.splits)
qed

lemma length_scraper_run: "length (ScraperAgent_run fetch hits) \<le> length hits"
proof -
  have "length (ScraperAgent_run fetch hits) \<le> length (take 10 hits)"
    unfolding ScraperAgent_run_def by (rule length_scrape_loop)
  then show ?thesis by simp
qed

lemma length_extraction_run: "length (ExtractionAgent_run client pages) \<le> length pages"
  by (cases client)
    (simp_all add: ExtractionAgent_run_def ExtractionAgent_mock_extract_def
      length_llm_extract_loop)

lemma length_geocoding_run:
  "GeocodingAgent_run lookup jobs = Inr out \<Longrightarrow> length out = length jobs"
  using geocode_loop_frame [of lookup 0 jobs out] by (simp add: GeocodingAgent_run_def)

lemma length_indexing_run: "length (returned (IndexingAgent_run env jobs)) \<le> length jobs"
proof -
  have "prefix (returned (IndexingAgent_run env jobs)) (batch_records env jobs)"
    using run_shape [of env jobs] by blast
  then have "length (returned (IndexingAgent_run env jobs)) \<le> length (batch_records env jobs)"
    by (rule prefix_length_le)
  then show ?thesis by (simp add: batch_records_def)
qed

text \<open>
  Claim C6. None of the four consuming agents returns more items than it is given, and
  in every run of the pipeline built from them the output of each stage is at most as
  long as the output of the stage before it, also when a stage raises and its output
  is set to the empty list.
\<close>

theorem stage_counts_never_grow:
  "length (ScraperAgent_run fetch hits) \<le> length hits
   \<and> length (ExtractionAgent_run client pages) \<le> length pages
   \<and> (GeocodingAgent_run lookup jobs = Inr out \<longrightarrow> length out \<le> length jobs)
   \<and> length (returned (IndexingAgent_run env located)) \<le> length located
   \<and> length (scraped_content (JobDiscoveryPipeline_run (JobDiscoveryPipeline c) q))
       \<le> length (search_results (JobDiscoveryPipeline_run (JobDiscoveryPipeline c) q))
   \<and> length (extracted_jobs (JobDiscoveryPipeline_run (JobDiscoveryPipeline c) q))
       \<le> length (scraped_content (JobDiscoveryPipeline_run (JobDiscoveryPipeline c) q))
   \<and> length (geocoded_jobs (JobDiscoveryPipeline_run (JobDiscoveryPipeline c) q))
       \<le> length (extracted_jobs (JobDiscoveryPipeline_run (JobDiscoveryPipeline c) q))
   \<and> length (indexed_jobs (JobDiscoveryPipeline_run (JobDiscoveryPipeline c) q))
       \<le> length (geocoded_jobs (JobDiscoveryPipeline_run (JobDiscoveryPipeline c) q))"
proof -
  let ?final = "JobDiscoveryPipeline_run (JobDiscoveryPipeline c) q"
  note fields = run_fields [of "JobDiscoveryPipeline c" q]
  have scraped: "scraped_content ?final = ScraperAgent_run (http c) (search_results ?final)"
    using fields by (simp add: JobDiscoveryPipeline_def)
  have extracted: "extracted_jobs ?final = ExtractionAgent_run (openai c) (scraped_content ?final)"
    using fields by (simp add: JobDiscoveryPipeline_def)
  have geocoded: "geocoded_jobs ?final =
      (case GeocodingAgent_run (nominatim c) (extracted_jobs ?final) of
         Inr r \<Rightarrow> r | Inl e \<Rightarrow> [])"
    using fields by (simp add: JobDiscoveryPipeline_def)
  have indexed: "indexed_jobs ?final = returned (IndexingAgent_run (stores c) (geocoded_jobs ?final))"
    using fields by (simp add: JobDiscoveryPipeline_def)
  have one: "length (scraped_content ?final) \<le> length (search_results ?final)"
    by (subst scraped) (rule length_scraper_run)
  have two: "length (extracted_jobs ?final) \<le> length (scraped_content ?final)"
    by (subst extracted) (rule length_extraction_run)
  have three: "length (geocoded_jobs ?final) \<le> length (extracted_jobs ?final)"
  proof (cases "GeocodingAgent_run (nominatim c) (extracted_jobs ?final)")
    case (Inl e)
    then show ?thesis using geocoded by simp
  next
    case (Inr r)
    then show ?thesis using geocoded length_geocoding_run [OF Inr] by simp
  qed
  have four: "length (indexed_jobs ?final) \<le> length (geocoded_jobs ?final)"
    by (subst indexed) (rule length_indexing_run)
  have geo: "GeocodingAgent_run lookup jobs = Inr out \<longrightarrow> length out \<le> length jobs"
    using length_geocoding_run [of lookup jobs out] by simp
  from one two three four geo length_scraper_run [of fetch hits]
    length_extraction_run [of client pages] length_indexing_run [of env located]
  show ?thesis by blast
qed

text \<open>
  A whole run with the example collaborators: the two default queries give three hits
  with two distinct urls, one page can be fetched, and one job is extracted, geocoded
  and indexed.
\<close>

lemma example_run_counts:
  "map url_of (search_results (JobDiscoveryPipeline_run (JobDiscoveryPipeline example_collaborators) None)) =
     [''a.com'', ''b.com'']
   \<and> map url_of (scraped_content (JobDiscoveryPipeline_run (JobDiscoveryPipeline example_collaborators) None)) =
     [''a.com'']
   \<and> map location (extracted_jobs (JobDiscoveryPipeline_run (JobDiscoveryPipeline example_collaborators) None)) =
     [''India'']
   \<and> map lat (geocoded_jobs (JobDiscoveryPipeline_run (JobDiscoveryPipeline example_collaborators) None)) =
     [20.5937]
   \<and> map idx_id (indexed_jobs (JobDiscoveryPipeline_run (JobDiscoveryPipeline example_collaborators) None)) =
     [''id-a'']"
proof -
  let ?final = "JobDiscoveryPipeline_run (JobDiscoveryPipeline example_collaborators) None"
  note fields = run_fields [of "JobDiscoveryPipeline example_collaborators" None]
  note f1 = fields [THEN conjunct1]
  note f2 = fields [THEN conjunct2, THEN conjunct1]
  note f3 = fields [THEN conjunct2, THEN conjunct2, THEN conjunct1]
  note f4 = fields [THEN conjunct2, THEN conjunct2, THEN conjunct2, THEN conjunct1]
  note f5 = fields [THEN conjunct2, THEN conjunct2, THEN conjunct2, THEN conjunct2]
  have agents: "web_search (JobDiscoveryPipeline example_collaborators) = WebSearchAgent_run example_ddgs"
    "scraper (JobDiscoveryPipeline example_collaborators) = (\<lambda>urls. Inr (ScraperAgent_run example_http urls))"
    "extraction (JobDiscoveryPipeline example_collaborators) = (\<lambda>pages. Inr (ExtractionAgent_run None pages))"
    "geocoding (JobDiscoveryPipeline example_collaborators) = GeocodingAgent_run (\<lambda>i. timed_out_geocoder)"
    "indexing (JobDiscoveryPipeline example_collaborators) =
       (\<lambda>jobs. Inr (returned (IndexingAgent_run example_stores jobs)))"
    by (simp_all add: JobDiscoveryPipeline_def example_collaborators_def)
  have hits: "search_results ?final =
      [search_hit ''software engineer jobs India hiring 2024'' [''title'' \<mapsto> ''A'', ''href'' \<mapsto> ''a.com''],
       search_hit ''developer jobs Bangalore hiring'' [''href'' \<mapsto> ''b.com'']]"
    by (simp add: f1 agents or_empty_def
        WebSearchAgent_run_def search_results_of_def DEFAULT_QUERIES_def example_ddgs_def
        search_hit_def dict_get_def)
  have pages: "scraped_content ?final =
      [[''url'' \<mapsto> ''a.com'', ''title'' \<mapsto> ''A'', ''snippet'' \<mapsto> [],
        ''content'' \<mapsto> ''Backend Developer at Acme, Pune'']]"
    by (simp add: f2 hits agents ScraperAgent_run_def
        ScraperAgent_scrape_url_def example_http_def search_hit_def dict_get_def Let_def)
  have jobs: "extracted_jobs ?final =
      [\<lparr>job_title = ''A'', company = ''Unknown Company'', location = ''India'',
        apply_url = Some ''a.com'', description = Some []\<rparr>]"
    by (simp add: f3 pages agents
        ExtractionAgent_run_def ExtractionAgent_mock_extract_def mock_job_def dict_get_def)
  have india: "cache_scan CITY_CACHE (strip (lower ''India'')) = Some (20.5937, 78.9629)"
    by (simp add: CITY_CACHE_def strip_def lower_def lower_char_def isspace_def)
  have located: "geocoded_jobs ?final =
      [\<lparr>job_title = ''A'', company = ''Unknown Company'', location = ''India'',
        apply_url = Some ''a.com'', description = Some [],
        lat = 20.5937, lng = 78.9629\<rparr>]"
    by (simp add: f4 jobs agents GeocodingAgent_run_def
        GeocodingAgent_geocode_location_def india geocoded_def)
  have indexed: "map idx_id (indexed_jobs ?final) = [''id-a'']"
    by (simp add: f5 located agents
        IndexingAgent_run_def example_stores_def indexed_record_def Let_def)
  show ?thesis
    by (simp add: hits pages jobs located indexed url_of_def search_hit_def dict_get_def)
qed

theorem stage_counts_never_grow_witness:
  "length (search_results (JobDiscoveryPipeline_run (JobDiscoveryPipeline example_collaborators) None)) = 2
   \<and> length (scraped_content (JobDiscoveryPipeline_run (JobDiscoveryPipeline example_collaborators) None)) = 1
   \<and> length (extracted_jobs (JobDiscoveryPipeline_run (JobDiscoveryPipeline example_collaborators) None)) = 1
   \<and> length (geocoded_jobs (JobDiscoveryPipeline_run (JobDiscoveryPipeline example_collaborators) None)) = 1
   \<and> length (indexed_jobs (JobDiscoveryPipeline_run (JobDiscoveryPipeline example_collaborators) None)) = 1
   \<and> (\<exists>out. GeocodingAgent_run (\<lambda>i. timed_out_geocoder) [job_bangalore, job_timbuktu] = Inr out
          \<and> length out \<le> length [job_bangalore, job_timbuktu])"
proof -
  let ?final = "JobDiscoveryPipeline_run (JobDiscoveryPipeline example_collaborators) None"
  obtain out where out: "GeocodingAgent_run (\<lambda>i. timed_out_geocoder) [job_bangalore, job_timbuktu] = Inr out"
    using example_geocoding_run by blast
  have "length out \<le> length [job_bangalore, job_timbuktu]"
    using stage_counts_never_grow
      [of _ _ _ _ "\<lambda>i. timed_out_geocoder" "[job_bangalore, job_timbuktu]" out] out
    by blast
  moreover have "length (map url_of (search_results ?final)) = 2"
    "length (map url_of (scraped_content ?final)) = 1"
    "length (map location (extracted_jobs ?final)) = 1"
    "length (map lat (geocoded_jobs ?final)) = 1"
    "length (map idx_id (indexed_jobs ?final)) = 1"
    using example_run_counts by simp_all
  ultimately show ?thesis using out by simp
qed

lemma web_search_returns: "\<exists>out. WebSearchAgent_run ddgs_text q m = Inr out"
proof -
  have "\<forall>r\<in>set (search_results_of ddgs_text q m). r ''url'' = Some (url_of r)"
    unfolding search_results_of_def by (blast intro: search_queries_have_url)
  from remove_duplicates_spec [OF this, of "{}" "[]"] show ?thesis
    unfolding WebSearchAgent_run_def by auto
qed

lemma agents_on_nothing:
  "ExtractionAgent_run client [] = []
   \<and> GeocodingAgent_run lookup [] = Inr []
   \<and> returned (IndexingAgent_run env []) = []"
  by (cases client)
    (simp_all add: ExtractionAgent_run_def ExtractionAgent_mock_extract_def
      GeocodingAgent_run_def IndexingAgent_run_def split: option.splits)

lemma failed_scrape_run:
  assumes "self = (JobDiscoveryPipeline c)\<lparr>scraper := (\<lambda>hits. Inl e)\<rparr>"
  shows "scraped_content (JobDiscoveryPipeline_run self q) = []
     \<and> extracted_jobs (JobDiscoveryPipeline_run self q) = []
     \<and> geocoded_jobs (JobDiscoveryPipeline_run self q) = []
     \<and> indexed_jobs (JobDiscoveryPipeline_run self q) = []
     \<and> error (JobDiscoveryPipeline_run self q) = ''Scrape error: '' @ str_exn e"
proof -
  obtain found where found: "WebSearchAgent_run (ddgs c) (Some (or_empty q)) 10 = Inr found"
    using web_search_returns by blast
  have s1: "search_node self (initial_state q) = (initial_state q)\<lparr>search_results := found\<rparr>"
    using found by (simp add: search_node_def assms JobDiscoveryPipeline_def initial_state_def)
  have s2: "scrape_node self ((initial_state q)\<lparr>search_results := found\<rparr>) =
      (initial_state q)\<lparr>search_results := found, error := ''Scrape error: '' @ str_exn e\<rparr>"
    by (simp add: scrape_node_def assms initial_state_def)
  have s3: "extract_node self
        ((initial_state q)\<lparr>search_results := found, error := ''Scrape error: '' @ str_exn e\<rparr>) =
      (initial_state q)\<lparr>search_results := found, error := ''Scrape error: '' @ str_exn e\<rparr>"
    using agents_on_nothing [of "openai c"]
    by (simp add: extract_node_def assms JobDiscoveryPipeline_def initial_state_def)
  have s4: "geocode_node self
        ((initial_state q)\<lparr>search_results := found, error := ''Scrape error: '' @ str_exn e\<rparr>) =
      (initial_state q)\<lparr>search_results := found, error := ''Scrape error: '' @ str_exn e\<rparr>"
    using agents_on_nothing [of _ "nominatim c"]
    by (simp add: geocode_node_def assms JobDiscoveryPipeline_def initial_state_def)
  have s5: "index_node self
        ((initial_state q)\<lparr>search_results := found, error := ''Scrape error: '' @ str_exn e\<rparr>) =
      (initial_state q)\<lparr>search_results := found, error := ''Scrape error: '' @ str_exn e\<rparr>"
    using agents_on_nothing [of _ _ "stores c"]
    by (simp add: index_node_def assms JobDiscoveryPipeline_def initial_state_def)
  have "JobDiscoveryPipeline_run self q =
      (initial_state q)\<lparr>search_results := found, error := ''Scrape error: '' @ str_exn e\<rparr>"
    by (simp only: JobDiscoveryPipeline_run_def s1 s2 s3 s4 s5)
  then show ?thesis by (simp add: initial_state_def)
qed

text \<open>
  Claim C1. A run is the five nodes applied in order, so it always yields a state. When
  the agent of a node raises, the node writes the stage's tag followed by the text of
  the exception into the error slot and the empty list into the stage's output, and the
  remaining nodes are applied to that state: the next agent is called with the empty
  list. The tags are \<open>Search error\<close>, \<open>Scrape error\<close>, \<open>Extraction error\<close>,
  \<open>Geocoding error\<close> and \<open>Indexing error\<close>. In particular, in the pipeline of this
  repository with a scraper that raises, the scraped, extracted, geocoded and indexed
  lists of the final state are all empty and its error slot holds the scrape message,
  whatever the other collaborators do.
\<close>

theorem stage_failure_is_recorded_and_run_continues:
  "(web_search self (Some (query st)) 10 = Inl e \<longrightarrow>
      search_node self st = st\<lparr>error := ''Search error: '' @ str_exn e, search_results := []\<rparr>)
   \<and> (scraper self (search_results st) = Inl e \<longrightarrow>
      scrape_node self st = st\<lparr>error := ''Scrape error: '' @ str_exn e, scraped_content := []\<rparr>)
   \<and> (extraction self (scraped_content st) = Inl e \<longrightarrow>
      extract_node self st = st\<lparr>error := ''Extraction error: '' @ str_exn e, extracted_jobs := []\<rparr>)
   \<and> (geocoding self (extracted_jobs st) = Inl e \<longrightarrow>
      geocode_node self st = st\<lparr>error := ''Geocoding error: '' @ str_exn e, geocoded_jobs := []\<rparr>)
   \<and> (indexing self (geocoded_jobs st) = Inl e \<longrightarrow>
      index_node self st = st\<lparr>error := ''Indexing error: '' @ str_exn e, indexed_jobs := []\<rparr>)
   \<and> (web_search self (Some (or_empty q)) 10 = Inl e \<longrightarrow>
      JobDiscoveryPipeline_run self q =
        index_node self (geocode_node self (extract_node self (scrape_node self
          ((initial_state q)\<lparr>error := ''Search error: '' @ str_exn e, search_results := []\<rparr>))))
      \<and> scraped_content (JobDiscoveryPipeline_run self q) =
          (case scraper self [] of Inr r \<Rightarrow> r | Inl x \<Rightarrow> []))
   \<and> (scraper self (search_results (search_node self (initial_state q))) = Inl e \<longrightarrow>
      JobDiscoveryPipeline_run self q =
        index_node self (geocode_node self (extract_node self
          ((search_node self (initial_state q))
             \<lparr>error := ''Scrape error: '' @ str_exn e, scraped_content := []\<rparr>)))
      \<and> scraped_content (JobDiscoveryPipeline_run self q) = []
      \<and> extracted_jobs (JobDiscoveryPipeline_run self q) =
          (case extraction self [] of Inr r \<Rightarrow> r | Inl x \<Rightarrow> []))
   \<and> (extraction self
         (scraped_content (scrape_node self (search_node self (initial_state q)))) = Inl e \<longrightarrow>
      JobDiscoveryPipeline_run self q =
        index_node self (geocode_node self
          ((scrape_node self (search_node self (initial_state q)))
             \<lparr>error := ''Extraction error: '' @ str_exn e, extracted_jobs := []\<rparr>))
      \<and> extracted_jobs (JobDiscoveryPipeline_run self q) = []
      \<and> geocoded_jobs (JobDiscoveryPipeline_run self q) =
          (case geocoding self [] of Inr r \<Rightarrow> r | Inl x \<Rightarrow> []))
   \<and> (geocoding self
         (extracted_jobs (extract_node self (scrape_node self
            (search_node self (initial_state q))))) = Inl e \<longrightarrow>
      JobDiscoveryPipeline_run self q =
        index_node self
          ((extract_node self (scrape_node self (search_node self (initial_state q))))
             \<lparr>error := ''Geocoding error: '' @ str_exn e, geocoded_jobs := []\<rparr>)
      \<and> geocoded_jobs (JobDiscoveryPipeline_run self q) = []
      \<and> indexed_jobs (JobDiscoveryPipeline_run self q) =
          (case indexing self [] of Inr r \<Rightarrow> r | Inl x \<Rightarrow> []))
   \<and> (indexing self
         (geocoded_jobs (geocode_node self (extract_node self (scrape_node self
            (search_node self (initial_state q)))))) = Inl e \<longrightarrow>
      JobDiscoveryPipeline_run self q =
        (geocode_node self (extract_node self (scrape_node self
            (search_node self (initial_state q)))))
          \<lparr>error := ''Indexing error: '' @ str_exn e, indexed_jobs := []\<rparr>)
   \<and> (self = (JobDiscoveryPipeline c)\<lparr>scraper := (\<lambda>hits. Inl e)\<rparr> \<longrightarrow>
      scraped_content (JobDiscoveryPipeline_run self q) = []
      \<and> extracted_jobs (JobDiscoveryPipeline_run self q) = []
      \<and> geocoded_jobs (JobDiscoveryPipeline_run self q) = []
      \<and> indexed_jobs (JobDiscoveryPipeline_run self q) = []
      \<and> error (JobDiscoveryPipeline_run self q) = ''Scrape error: '' @ str_exn e)"
proof (intro conjI)
  show "web_search self (Some (query st)) 10 = Inl e \<longrightarrow>
      search_node self st = st\<lparr>error := ''Search error: '' @ str_exn e, search_results := []\<rparr>"
    by (simp add: search_node_def)
  show "scraper self (search_results st) = Inl e \<longrightarrow>
      scrape_node self st = st\<lparr>error := ''Scrape error: '' @ str_exn e, scraped_content := []\<rparr>"
    by (simp add: scrape_node_def)
  show "extraction self (scraped_content st) = Inl e \<longrightarrow>
      extract_node self st = st\<lparr>error := ''Extraction error: '' @ str_exn e, extracted_jobs := []\<rparr>"
    by (simp add: extract_node_def)
  show "geocoding self (extracted_jobs st) = Inl e \<longrightarrow>
      geocode_node self st = st\<lparr>error := ''Geocoding error: '' @ str_exn e, geocoded_jobs := []\<rparr>"
    by (simp add: geocode_node_def)
  show "indexing self (geocoded_jobs st) = Inl e \<longrightarrow>
      index_node self st = st\<lparr>error := ''Indexing error: '' @ str_exn e, indexed_jobs := []\<rparr>"
    by (simp add: index_node_def)
  show "web_search self (Some (or_empty q)) 10 = Inl e \<longrightarrow>
      JobDiscoveryPipeline_run self q =
        index_node self (geocode_node self (extract_node self (scrape_node self
          ((initial_state q)\<lparr>error := ''Search error: '' @ str_exn e, search_results := []\<rparr>))))
      \<and> scraped_content (JobDiscoveryPipeline_run self q) =
          (case scraper self [] of Inr r \<Rightarrow> r | Inl x \<Rightarrow> [])"
  proof
    assume raised: "web_search self (Some (or_empty q)) 10 = Inl e"
    have "search_node self (initial_state q) =
        (initial_state q)\<lparr>error := ''Search error: '' @ str_exn e, search_results := []\<rparr>"
      using raised by (simp add: search_node_def initial_state_def)
    then have "JobDiscoveryPipeline_run self q =
        index_node self (geocode_node self (extract_node self (scrape_node self
          ((initial_state q)\<lparr>error := ''Search error: '' @ str_exn e, search_results := []\<rparr>))))"
      by (simp only: JobDiscoveryPipeline_run_def)
    moreover have "scraped_content (JobDiscoveryPipeline_run self q) =
          (case scraper self [] of Inr r \<Rightarrow> r | Inl x \<Rightarrow> [])"
      using run_fields [of self q] raised by simp
    ultimately show "JobDiscoveryPipeline_run self q =
        index_node self (geocode_node self (extract_node self (scrape_node self
          ((initial_state q)\<lparr>error := ''Search error: '' @ str_exn e, search_results := []\<rparr>))))
      \<and> scraped_content (JobDiscoveryPipeline_run self q) =
          (case scraper self [] of Inr r \<Rightarrow> r | Inl x \<Rightarrow> [])"
      by (rule conjI)
  qed
  show "scraper self (search_results (search_node self (initial_state q))) = Inl e \<longrightarrow>
      JobDiscoveryPipeline_run self q =
        index_node self (geocode_node self (extract_node self
          ((search_node self (initial_state q))
             \<lparr>error := ''Scrape error: '' @ str_exn e, scraped_content := []\<rparr>)))
      \<and> scraped_content (JobDiscoveryPipeline_run self q) = []
      \<and> extracted_jobs (JobDiscoveryPipeline_run self q) =
          (case extraction self [] of Inr r \<Rightarrow> r | Inl x \<Rightarrow> [])"
  proof
    assume raised: "scraper self (search_results (search_node self (initial_state q))) = Inl e"
    have "scrape_node self (search_node self (initial_state q)) =
        (search_node self (initial_state q))
          \<lparr>error := ''Scrape error: '' @ str_exn e, scraped_content := []\<rparr>"
      using raised by (simp add: scrape_node_def)
    then have run: "JobDiscoveryPipeline_run self q =
        index_node self (geocode_node self (extract_node self
          ((search_node self (initial_state q))
             \<lparr>error := ''Scrape error: '' @ str_exn e, scraped_content := []\<rparr>)))"
      by (simp only: JobDiscoveryPipeline_run_def)
    have sr: "search_results (JobDiscoveryPipeline_run self q) =
        search_results (search_node self (initial_state q))"
      unfolding JobDiscoveryPipeline_run_def
      by (simp only: scrape_node_fields extract_node_fields geocode_node_fields index_node_fields)
    have empty: "scraped_content (JobDiscoveryPipeline_run self q) = []"
      using run_fields [of self q] raised by (simp add: sr)
    then have "extracted_jobs (JobDiscoveryPipeline_run self q) =
          (case extraction self [] of Inr r \<Rightarrow> r | Inl x \<Rightarrow> [])"
      using run_fields [of self q] by simp
    with run empty show "JobDiscoveryPipeline_run self q =
        index_node self (geocode_node self (extract_node self
          ((search_node self (initial_state q))
             \<lparr>error := ''Scrape error: '' @ str_exn e, scraped_content := []\<rparr>)))
      \<and> scraped_content (JobDiscoveryPipeline_run self q) = []
      \<and> extracted_jobs (JobDiscoveryPipeline_run self q) =
          (case extraction self [] of Inr r \<Rightarrow> r | Inl x \<Rightarrow> [])"
      by (intro conjI)
  qed
  show "extraction self
         (scraped_content (scrape_node self (search_node self (initial_state q)))) = Inl e \<longrightarrow>
      JobDiscoveryPipeline_run self q =
        index_node self (geocode_node self
          ((scrape_node self (search_node self (initial_state q)))
             \<lparr>error := ''Extraction error: '' @ str_exn e, extracted_jobs := []\<rparr>))
      \<and> extracted_jobs (JobDiscoveryPipeline_run self q) = []
      \<and> geocoded_jobs (JobDiscoveryPipeline_run self q) =
          (case geocoding self [] of Inr r \<Rightarrow> r | Inl x \<Rightarrow> [])"
  proof
    assume raised: "extraction self
         (scraped_content (scrape_node self (search_node self (initial_state q)))) = Inl e"
    have "extract_node self (scrape_node self (search_node self (initial_state q))) =
        (scrape_node self (search_node self (initial_state q)))
          \<lparr>error := ''Extraction error: '' @ str_exn e, extracted_jobs := []\<rparr>"
      using raised by (simp add: extract_node_def)
    then have run: "JobDiscoveryPipeline_run self q =
        index_node self (geocode_node self
          ((scrape_node self (search_node self (initial_state q)))
             \<lparr>error := ''Extraction error: '' @ str_exn e, extracted_jobs := []\<rparr>))"
      by (simp only: JobDiscoveryPipeline_run_def)
    have sc: "scraped_content (JobDiscoveryPipeline_run self q) =
        scraped_content (scrape_node self (search_node self (initial_state q)))"
      unfolding JobDiscoveryPipeline_run_def
      by (simp only: extract_node_fields geocode_node_fields index_node_fields)
    have empty: "extracted_jobs (JobDiscoveryPipeline_run self q) = []"
      using run_fields [of self q] raised by (simp add: sc)
    then have "geocoded_jobs (JobDiscoveryPipeline_run self q) =
          (case geocoding self [] of Inr r \<Rightarrow> r | Inl x \<Rightarrow> [])"
      using run_fields [of self q] by simp
    with run empty show "JobDiscoveryPipeline_run self q =
        index_node self (geocode_node self
          ((scrape_node self (search_node self (initial_state q)))
             \<lparr>error := ''Extraction error: '' @ str_exn e, extracted_jobs := []\<rparr>))
      \<and> extracted_jobs (JobDiscoveryPipeline_run self q) = []
      \<and> geocoded_jobs (JobDiscoveryPipeline_run self q) =
          (case geocoding self [] of Inr r \<Rightarrow> r | Inl x \<Rightarrow> [])"
      by (intro conjI)
  qed
  show "geocoding self
         (extracted_jobs (extract_node self (scrape_node self
            (search_node self (initial_state q))))) = Inl e \<longrightarrow>
      JobDiscoveryPipeline_run self q =
        index_node self
          ((extract_node self (scrape_node self (search_node self (initial_state q))))
             \<lparr>error := ''Geocoding error: '' @ str_exn e, geocoded_jobs := []\<rparr>)
      \<and> geocoded_jobs (JobDiscoveryPipeline_run self q) = []
      \<and> indexed_jobs (JobDiscoveryPipeline_run self q) =
          (case indexing self [] of Inr r \<Rightarrow> r | Inl x \<Rightarrow> [])"
  proof
    assume raised: "geocoding self
         (extracted_jobs (extract_node self (scrape_node self
            (search_node self (initial_state q))))) = Inl e"
    have "geocode_node self (extract_node self (scrape_node self (search_node self (initial_state q)))) =
        (extract_node self (scrape_node self (search_node self (initial_state q))))
          \<lparr>error := ''Geocoding error: '' @ str_exn e, geocoded_jobs := []\<rparr>"
      using raised by (simp add: geocode_node_def)
    then have run: "JobDiscoveryPipeline_run self q =
        index_node self
          ((extract_node self (scrape_node self (search_node self (initial_state q))))
             \<lparr>error := ''Geocoding error: '' @ str_exn e, geocoded_jobs := []\<rparr>)"
      by (simp only: JobDiscoveryPipeline_run_def)
    have ej: "extracted_jobs (JobDiscoveryPipeline_run self q) =
        extracted_jobs (extract_node self (scrape_node self (search_node self (initial_state q))))"
      unfolding JobDiscoveryPipeline_run_def
      by (simp only: geocode_node_fields index_node_fields)
    have empty: "geocoded_jobs (JobDiscoveryPipeline_run self q) = []"
      using run_fields [of self q] raised by (simp add: ej)
    then have "indexed_jobs (JobDiscoveryPipeline_run self q) =
          (case indexing self [] of Inr r \<Rightarrow> r | Inl x \<Rightarrow> [])"
      using run_fields [of self q] by simp
    with run empty show "JobDiscoveryPipeline_run self q =
        index_node self
          ((extract_node self (scrape_node self (search_node self (initial_state q))))
             \<lparr>error := ''Geocoding error: '' @ str_exn e, geocoded_jobs := []\<rparr>)
      \<and> geocoded_jobs (JobDiscoveryPipeline_run self q) = []
      \<and> indexed_jobs (JobDiscoveryPipeline_run self q) =
          (case indexing self [] of Inr r \<Rightarrow> r | Inl x \<Rightarrow> [])"
      by (intro conjI)
  qed
  show "indexing self
         (geocoded_jobs (geocode_node self (extract_node self (scrape_node self
            (search_node self (initial_state q)))))) = Inl e \<longrightarrow>
      JobDiscoveryPipeline_run self q =
        (geocode_node self (extract_node self (scrape_node self
            (search_node self (initial_state q)))))
          \<lparr>error := ''Indexing error: '' @ str_exn e, indexed_jobs := []\<rparr>"
    by (simp add: JobDiscoveryPipeline_run_def index_node_def)
  show "self = (JobDiscoveryPipeline c)\<lparr>scraper := (\<lambda>hits. Inl e)\<rparr> \<longrightarrow>
      scraped_content (JobDiscoveryPipeline_run self q) = []
      \<and> extracted_jobs (JobDiscoveryPipeline_run self q) = []
      \<and> geocoded_jobs (JobDiscoveryPipeline_run self q) = []
      \<and> indexed_jobs (JobDiscoveryPipeline_run self q) = []
      \<and> error (JobDiscoveryPipeline_run self q) = ''Scrape error: '' @ str_exn e"
    using failed_scrape_run [where self = self and c = c and e = e and q = q] by blast
qed

text \<open>
  The pipeline of the example collaborators with a scraper that raises: the search
  still finds its two urls, every later list is empty, and the error slot holds the
  scrape message.
\<close>

theorem stage_failure_is_recorded_and_run_continues_witness:
  "scraped_content (JobDiscoveryPipeline_run
      ((JobDiscoveryPipeline example_collaborators)
         \<lparr>scraper := (\<lambda>hits. Inl (OtherException ''connection pool is closed''))\<rparr>) None) = []
   \<and> extracted_jobs (JobDiscoveryPipeline_run
      ((JobDiscoveryPipeline example_collaborators)
         \<lparr>scraper := (\<lambda>hits. Inl (OtherException ''connection pool is closed''))\<rparr>) None) = []
   \<and> geocoded_jobs (JobDiscoveryPipeline_run
      ((JobDiscoveryPipeline example_collaborators)
         \<lparr>scraper := (\<lambda>hits. Inl (OtherException ''connection pool is closed''))\<rparr>) None) = []
   \<and> indexed_jobs (JobDiscoveryPipeline_run
      ((JobDiscoveryPipeline example_collaborators)
         \<lparr>scraper := (\<lambda>hits. Inl (OtherException ''connection pool is closed''))\<rparr>) None) = []
   \<and> error (JobDiscoveryPipeline_run
      ((JobDiscoveryPipeline example_collaborators)
         \<lparr>scraper := (\<lambda>hits. Inl (OtherException ''connection pool is closed''))\<rparr>) None) =
       ''Scrape error: connection pool is closed''"
proof -
  let ?self = "(JobDiscoveryPipeline example_collaborators)
           \<lparr>scraper := (\<lambda>hits. Inl (OtherException ''connection pool is closed''))\<rparr>"
  note at_example = stage_failure_is_recorded_and_run_continues
    [where self = ?self and e = "OtherException ''connection pool is closed''"
       and q = None and c = example_collaborators and st = "initial_state None"]
  note scrape_case = at_example [THEN conjunct2, THEN conjunct2, THEN conjunct2, THEN conjunct2,
    THEN conjunct2, THEN conjunct2, THEN conjunct2, THEN conjunct2, THEN conjunct2,
    THEN conjunct2]
  have "scraped_content (JobDiscoveryPipeline_run ?self None) = []
      \<and> extracted_jobs (JobDiscoveryPipeline_run ?self None) = []
      \<and> geocoded_jobs (JobDiscoveryPipeline_run ?self None) = []
      \<and> indexed_jobs (JobDiscoveryPipeline_run ?self None) = []
      \<and> error (JobDiscoveryPipeline_run ?self None) =
          ''Scrape error: '' @ str_exn (OtherException ''connection pool is closed'')"
    using scrape_case by (rule mp) (rule refl)
  then show ?thesis by simp
qed

end
